theory Spec2Isabelle
  imports Main "HOL-Library.Sublist"
begin

section \<open>The noise-libp2p handshake (p2p/security/noise/handshake.go)\<close>

text \<open>
  A shallow embedding of \<^verbatim>\<open>handshake.go\<close>. The methods of \<^verbatim>\<open>secureSession\<close> are
  functions on an explicit state; every \<^verbatim>\<open>error\<close> return of the Go code is a branch
  that returns the error as a value. The collaborators that the file calls but does
  not define (the Noise engine of flynn/noise, the framed insecure transport, the
  libp2p identity keys, the protobuf codec) are parameters, collected in a record.
\<close>

subsection \<open>Data\<close>

type_synonym bytes = string

text \<open>\<^verbatim>\<open>const payloadSigPrefix = "noise-libp2p-static-key:"\<close>\<close>

definition payloadSigPrefix :: bytes where
  "payloadSigPrefix = ''noise-libp2p-static-key:''"

text \<open>
  Go errors. \<open>External\<close> is an error value produced by a collaborator,
  \<open>Errorf m\<close> is \<^verbatim>\<open>fmt.Errorf(m)\<close> and \<open>ErrorfW m e\<close> is \<^verbatim>\<open>fmt.Errorf(m + "%w", e)\<close>:
  a new error whose text starts with \<open>m\<close> and which wraps \<open>e\<close>.
\<close>

datatype error = External string | Errorf string | ErrorfW string error

text \<open>\<^verbatim>\<open>errors.Unwrap\<close>: the error wrapped by \<^verbatim>\<open>%w\<close>, if any.\<close>

fun Unwrap :: "error \<Rightarrow> error option" where
  "Unwrap (ErrorfW m e) = Some e"
| "Unwrap e = None"

text \<open>The fixed cipher suite and pattern handed to the engine.\<close>

datatype DHFunc = DH25519
datatype CipherFunc = CipherChaChaPoly
datatype HashFunc = HashSHA256
datatype CipherSuiteT = NewCipherSuite DHFunc CipherFunc HashFunc
datatype HandshakePattern = HandshakeXX

definition cipherSuite :: CipherSuiteT where
  "cipherSuite = NewCipherSuite DH25519 CipherChaChaPoly HashSHA256"

record DHKey =
  Private :: bytes
  Public :: bytes

record Config =
  CipherSuite :: CipherSuiteT
  Pattern :: HandshakePattern
  Initiator :: bool
  StaticKeypair :: DHKey

text \<open>
  Values of the collaborators' types are opaque to the handshake; each is identified
  by a tag. \<^verbatim>\<open>peer.ID\<close> is a Go string type, compared with \<^verbatim>\<open>!=\<close>.
\<close>

datatype CipherState = CipherState nat
datatype PubKey = PubKey nat
datatype PrivKey = PrivKey nat
type_synonym peer_ID = string

text \<open>\<^verbatim>\<open>pb.NoiseHandshakePayload\<close>, with the two fields the handshake reads and writes.\<close>

record NoiseHandshakePayload =
  IdentityKey :: bytes
  IdentitySig :: bytes

text \<open>
  The fields of \<^verbatim>\<open>secureSession\<close> that the handshake reads or assigns. The pointers
  \<^verbatim>\<open>enc\<close>, \<^verbatim>\<open>dec\<close> and the interface value \<^verbatim>\<open>remoteKey\<close> may be nil: \<open>None\<close>.
\<close>

record secureSession =
  initiator :: bool
  localKey :: PrivKey
  remoteID :: peer_ID
  remoteKey :: "PubKey option"
  enc :: "CipherState option"
  dec :: "CipherState option"

subsection \<open>Collaborators and the log of calls\<close>

text \<open>
  Each call of a collaborator is recorded, with its arguments and its result, in the
  order in which the code makes it. The log is not read by the code (lemma
  \<open>log_not_read\<close>).
\<close>

datatype event =
    EvGenerateKeypair "error + DHKey"
  | EvNewHandshakeState Config "error option"
  | EvBytes PubKey "error + bytes"
  | EvSign PrivKey bytes "error + bytes"
  | EvMarshal NoiseHandshakePayload "error + bytes"
  | EvWriteMessage bytes "error + bytes \<times> CipherState option \<times> CipherState option"
  | EvWriteMsgInsecure bytes "error option"
  | EvReadMsgInsecure "error + bytes"
  | EvReadMessage bytes "error + bytes \<times> CipherState option \<times> CipherState option"
  | EvPeerStatic bytes
  | EvUnmarshal bytes "error + NoiseHandshakePayload"
  | EvUnmarshalPublicKey bytes "error + PubKey"
  | EvIDFromPublicKey PubKey "error + peer_ID"
  | EvVerify PubKey bytes bytes "error + bool"

text \<open>
  The collaborators. \<open>'w\<close> is everything outside the session that a call may read or
  change: the randomness source, the state behind the engine handle \<^verbatim>\<open>hs\<close>, and the
  connection \<^verbatim>\<open>s.insecure\<close>. A Go call returning \<^verbatim>\<open>(v, err)\<close> is a sum; the code reads
  \<^verbatim>\<open>v\<close> only after it has checked \<^verbatim>\<open>err == nil\<close>. The engine returns the two cipher
  states as pointers, each of which may be nil.
\<close>

record 'w env =
  GenerateKeypair :: "'w \<Rightarrow> (error + DHKey) \<times> 'w"
  NewHandshakeState :: "Config \<Rightarrow> 'w \<Rightarrow> error option \<times> 'w"
  WriteMessage :: "bytes \<Rightarrow> 'w \<Rightarrow> (error + bytes \<times> CipherState option \<times> CipherState option) \<times> 'w"
  ReadMessage :: "bytes \<Rightarrow> 'w \<Rightarrow> (error + bytes \<times> CipherState option \<times> CipherState option) \<times> 'w"
  PeerStatic :: "'w \<Rightarrow> bytes"
  writeMsgInsecure :: "bytes \<Rightarrow> 'w \<Rightarrow> error option \<times> 'w"
  readMsgInsecure :: "'w \<Rightarrow> (error + bytes) \<times> 'w"
  GetPublic :: "PrivKey \<Rightarrow> PubKey"
  Bytes :: "PubKey \<Rightarrow> error + bytes"
  Sign :: "PrivKey \<Rightarrow> bytes \<Rightarrow> error + bytes"
  Marshal :: "NoiseHandshakePayload \<Rightarrow> error + bytes"
  Unmarshal :: "bytes \<Rightarrow> error + NoiseHandshakePayload"
  UnmarshalPublicKey :: "bytes \<Rightarrow> error + PubKey"
  IDFromPublicKey :: "PubKey \<Rightarrow> error + peer_ID"
  Verify :: "PubKey \<Rightarrow> bytes \<Rightarrow> bytes \<Rightarrow> error + bool"
  Pretty :: "peer_ID \<Rightarrow> string"

text \<open>The state of a run: the session, the outside world, and the log.\<close>

record 'w st =
  sess :: secureSession
  world :: 'w
  calls :: "event list"

text \<open>A call that may change the world, and a call that only computes.\<close>

definition extern :: "('a \<Rightarrow> event) \<Rightarrow> ('w \<Rightarrow> 'a \<times> 'w) \<Rightarrow> 'w st \<Rightarrow> 'a \<times> 'w st" where
  "extern ev f st =
     (case f (world st) of (r, w) \<Rightarrow> (r, st\<lparr>world := w, calls := calls st @ [ev r]\<rparr>))"

definition compute :: "('a \<Rightarrow> event) \<Rightarrow> 'a \<Rightarrow> 'w st \<Rightarrow> 'a \<times> 'w st" where
  "compute ev r st = (r, st\<lparr>calls := calls st @ [ev r]\<rparr>)"

subsection \<open>The methods\<close>

text \<open>
  Modelled from the spec: the method \<^verbatim>\<open>LocalPublicKey\<close> of \<^verbatim>\<open>secureSession\<close> is
  called by \<^verbatim>\<open>generateHandshakePayload\<close> and defined outside \<^verbatim>\<open>handshake.go\<close>. The
  payload carries the local long-term public key, the public half of the session's
  local identity key.
\<close>

definition LocalPublicKey :: "'w env \<Rightarrow> secureSession \<Rightarrow> PubKey" where
  "LocalPublicKey env s = GetPublic env (localKey s)"

text \<open>\<^verbatim>\<open>setCipherStates\<close> (lines 103 to 111).\<close>

definition setCipherStates ::
  "CipherState option \<Rightarrow> CipherState option \<Rightarrow> secureSession \<Rightarrow> secureSession" where
  "setCipherStates cs1 cs2 s =
     (if initiator s then s\<lparr>enc := cs1, dec := cs2\<rparr> else s\<lparr>enc := cs2, dec := cs1\<rparr>)"

text \<open>
  \<^verbatim>\<open>sendHandshakeMessage\<close> (lines 118 to 133). A nil payload is the empty byte
  string.
\<close>

definition sendHandshakeMessage :: "'w env \<Rightarrow> bytes \<Rightarrow> 'w st \<Rightarrow> error option \<times> 'w st" where
  "sendHandshakeMessage env payload st =
     (case extern (EvWriteMessage payload) (WriteMessage env payload) st of
        (Inl err, st1) \<Rightarrow> (Some err, st1)
      | (Inr (buf, cs1, cs2), st1) \<Rightarrow>
          (case extern (EvWriteMsgInsecure buf) (writeMsgInsecure env buf) st1 of
             (Some err, st2) \<Rightarrow> (Some err, st2)
           | (None, st2) \<Rightarrow>
               if cs1 \<noteq> None \<and> cs2 \<noteq> None
               then (None, st2\<lparr>sess := setCipherStates cs1 cs2 (sess st2)\<rparr>)
               else (None, st2)))"

text \<open>\<^verbatim>\<open>readHandshakeMessage\<close> (lines 142 to 155).\<close>

definition readHandshakeMessage :: "'w env \<Rightarrow> 'w st \<Rightarrow> (error + bytes) \<times> 'w st" where
  "readHandshakeMessage env st =
     (case extern EvReadMsgInsecure (readMsgInsecure env) st of
        (Inl err, st1) \<Rightarrow> (Inl err, st1)
      | (Inr raw, st1) \<Rightarrow>
          (case extern (EvReadMessage raw) (ReadMessage env raw) st1 of
             (Inl err, st2) \<Rightarrow> (Inl err, st2)
           | (Inr (msg, cs1, cs2), st2) \<Rightarrow>
               if cs1 \<noteq> None \<and> cs2 \<noteq> None
               then (Inr msg, st2\<lparr>sess := setCipherStates cs1 cs2 (sess st2)\<rparr>)
               else (Inr msg, st2)))"

text \<open>\<^verbatim>\<open>generateHandshakePayload\<close> (lines 159 to 183).\<close>

definition generateHandshakePayload ::
  "'w env \<Rightarrow> DHKey \<Rightarrow> 'w st \<Rightarrow> (error + bytes) \<times> 'w st" where
  "generateHandshakePayload env localStatic st =
     (let pk = LocalPublicKey env (sess st) in
      case compute (EvBytes pk) (Bytes env pk) st of
        (Inl err, st1) \<Rightarrow> (Inl (ErrorfW ''error serializing libp2p identity key: '' err), st1)
      | (Inr localKeyRaw, st1) \<Rightarrow>
          (let toSign = payloadSigPrefix @ Public localStatic in
           case compute (EvSign (localKey (sess st1)) toSign)
                        (Sign env (localKey (sess st1)) toSign) st1 of
             (Inl err, st2) \<Rightarrow> (Inl (ErrorfW ''error sigining handshake payload: '' err), st2)
           | (Inr signedPayload, st2) \<Rightarrow>
               (let payload = \<lparr>IdentityKey = localKeyRaw, IdentitySig = signedPayload\<rparr> in
                case compute (EvMarshal payload) (Marshal env payload) st2 of
                  (Inl err, st3) \<Rightarrow>
                    (Inl (ErrorfW ''error marshaling handshake payload: '' err), st3)
                | (Inr payloadEnc, st3) \<Rightarrow> (Inr payloadEnc, st3))))"

text \<open>\<^verbatim>\<open>handleRemoteHandshakePayload\<close> (lines 187 to 225).\<close>

definition handleRemoteHandshakePayload ::
  "'w env \<Rightarrow> bytes \<Rightarrow> bytes \<Rightarrow> 'w st \<Rightarrow> error option \<times> 'w st" where
  "handleRemoteHandshakePayload env payload remoteStatic st =
     (case compute (EvUnmarshal payload) (Unmarshal env payload) st of
        (Inl err, st1) \<Rightarrow>
          (Some (ErrorfW ''error unmarshaling remote handshake payload: '' err), st1)
      | (Inr nhp, st1) \<Rightarrow>
          (case compute (EvUnmarshalPublicKey (IdentityKey nhp))
                        (UnmarshalPublicKey env (IdentityKey nhp)) st1 of
             (Inl err, st2) \<Rightarrow> (Some err, st2)
           | (Inr remotePubKey, st2) \<Rightarrow>
               (case compute (EvIDFromPublicKey remotePubKey)
                             (IDFromPublicKey env remotePubKey) st2 of
                  (Inl err, st3) \<Rightarrow> (Some err, st3)
                | (Inr id', st3) \<Rightarrow>
                    if initiator (sess st3) \<and> remoteID (sess st3) \<noteq> id'
                    then (Some (Errorf (''peer id mismatch: expected ''
                                  @ Pretty env (remoteID (sess st3))
                                  @ '', but remote key matches '' @ Pretty env id')), st3)
                    else
                      (let sig = IdentitySig nhp;
                           msg = payloadSigPrefix @ remoteStatic in
                       case compute (EvVerify remotePubKey msg sig)
                                    (Verify env remotePubKey msg sig) st3 of
                         (Inl err, st4) \<Rightarrow> (Some (ErrorfW ''error verifying signature: '' err), st4)
                       | (Inr ok, st4) \<Rightarrow>
                           if \<not> ok then (Some (Errorf ''handshake signature invalid''), st4)
                           else (None, st4\<lparr>sess := (sess st4)\<lparr>remoteID := id',
                                                      remoteKey := Some remotePubKey\<rparr>\<rparr>)))))"

text \<open>
  \<^verbatim>\<open>runHandshake\<close> (lines 26 to 97). The two branches of \<^verbatim>\<open>if s.initiator\<close>
  (lines 49 to 94) are \<open>initiatorStages\<close> and \<open>responderStages\<close>.
\<close>

definition initiatorStages :: "'w env \<Rightarrow> bytes \<Rightarrow> 'w st \<Rightarrow> error option \<times> 'w st" where
  "initiatorStages env payload st =
     (case sendHandshakeMessage env [] st of
        (Some err, st1) \<Rightarrow> (Some (ErrorfW ''error sending handshake message: '' err), st1)
      | (None, st1) \<Rightarrow>
          (case readHandshakeMessage env st1 of
             (Inl err, st2) \<Rightarrow> (Some (ErrorfW ''error reading handshake message: '' err), st2)
           | (Inr plaintext, st2) \<Rightarrow>
               (case extern EvPeerStatic (\<lambda>w. (PeerStatic env w, w)) st2 of
                  (remoteStatic, st3) \<Rightarrow>
                    (case handleRemoteHandshakePayload env plaintext remoteStatic st3 of
                       (Some err, st4) \<Rightarrow> (Some err, st4)
                     | (None, st4) \<Rightarrow>
                         (case sendHandshakeMessage env payload st4 of
                            (Some err, st5) \<Rightarrow>
                              (Some (ErrorfW ''error sending handshake message: '' err), st5)
                          | (None, st5) \<Rightarrow> (None, st5))))))"

definition responderStages :: "'w env \<Rightarrow> bytes \<Rightarrow> 'w st \<Rightarrow> error option \<times> 'w st" where
  "responderStages env payload st =
     (case readHandshakeMessage env st of
        (Inl err, st1) \<Rightarrow> (Some (ErrorfW ''error reading handshake message: '' err), st1)
      | (Inr plaintext0, st1) \<Rightarrow>
          (case sendHandshakeMessage env payload st1 of
             (Some err, st2) \<Rightarrow> (Some (ErrorfW ''error sending handshake message: '' err), st2)
           | (None, st2) \<Rightarrow>
               (case readHandshakeMessage env st2 of
                  (Inl err, st3) \<Rightarrow>
                    (Some (ErrorfW ''error reading handshake message: '' err), st3)
                | (Inr plaintext, st3) \<Rightarrow>
                    (case extern EvPeerStatic (\<lambda>w. (PeerStatic env w, w)) st3 of
                       (remoteStatic, st4) \<Rightarrow>
                         (case handleRemoteHandshakePayload env plaintext remoteStatic st4 of
                            (Some err, st5) \<Rightarrow> (Some err, st5)
                          | (None, st5) \<Rightarrow> (None, st5))))))"

definition runHandshake :: "'w env \<Rightarrow> 'w st \<Rightarrow> error option \<times> 'w st" where
  "runHandshake env st =
     (case extern EvGenerateKeypair (GenerateKeypair env) st of
        (Inl err, st1) \<Rightarrow> (Some (ErrorfW ''error generating static keypair: '' err), st1)
      | (Inr kp, st1) \<Rightarrow>
          (let cfg = \<lparr>CipherSuite = cipherSuite, Pattern = HandshakeXX,
                      Initiator = initiator (sess st1), StaticKeypair = kp\<rparr> in
           case extern (EvNewHandshakeState cfg) (NewHandshakeState env cfg) st1 of
             (Some err, st2) \<Rightarrow>
               (Some (ErrorfW ''error initializing handshake state: '' err), st2)
           | (None, st2) \<Rightarrow>
               (case generateHandshakePayload env kp st2 of
                  (Inl err, st3) \<Rightarrow> (Some err, st3)
                | (Inr payload, st3) \<Rightarrow>
                    if initiator (sess st3) then initiatorStages env payload st3
                    else responderStages env payload st3)))"

subsection \<open>Reading the log\<close>

text \<open>The calls made between two states of a run.\<close>

definition since :: "'w st \<Rightarrow> 'w st \<Rightarrow> event list" where
  "since st st' = drop (length (calls st)) (calls st')"

text \<open>
  The message steps of a run: the payload this side built, each message the engine
  was asked to write (with the payload it carries), each frame written to the
  transport, each frame read from the transport, each plaintext the engine returned
  for a frame read, the remote static key the engine reported, each remote payload
  decoded and each byte string whose signature was checked.
\<close>

datatype step = Payload bytes | Send bytes | Written | Receive | Plaintext bytes
  | RemoteStatic bytes | Decode bytes | Check bytes

fun step_of :: "event \<Rightarrow> step list" where
  "step_of (EvMarshal n (Inr p)) = [Payload p]"
| "step_of (EvWriteMessage p r) = [Send p]"
| "step_of (EvWriteMsgInsecure buf r) = [Written]"
| "step_of (EvReadMsgInsecure r) = [Receive]"
| "step_of (EvReadMessage raw (Inr (m, cs1, cs2))) = [Plaintext m]"
| "step_of (EvPeerStatic rs) = [RemoteStatic rs]"
| "step_of (EvUnmarshal p r) = [Decode p]"
| "step_of (EvVerify k m sg r) = [Check m]"
| "step_of e = []"

definition steps :: "event list \<Rightarrow> step list" where
  "steps t = concat (map step_of t)"

text \<open>
  The two sequences of section 4.1 of the specification, written after its words:
  the Initiator sends message 1 with an empty payload, receives message 2, decodes
  its payload and checks its signature over the remote static key, and sends
  message 3 with its own payload; the Responder receives message 1, whose plaintext
  \<open>pt0\<close> it does not decode, sends message 2 with its own payload, receives message 3,
  decodes its payload and checks its signature. Sending is the engine's write
  followed by the write of the frame; receiving is the read of a frame followed by
  the engine's read.
\<close>

definition initiatorSequence :: "bytes \<Rightarrow> bytes \<Rightarrow> bytes \<Rightarrow> step list" where
  "initiatorSequence payload pt rs =
     [Payload payload, Send [], Written, Receive, Plaintext pt, RemoteStatic rs, Decode pt,
      Check (payloadSigPrefix @ rs), Send payload, Written]"

definition responderSequence :: "bytes \<Rightarrow> bytes \<Rightarrow> bytes \<Rightarrow> bytes \<Rightarrow> step list" where
  "responderSequence payload pt0 pt rs =
     [Payload payload, Receive, Plaintext pt0, Send payload, Written, Receive, Plaintext pt,
      RemoteStatic rs, Decode pt, Check (payloadSigPrefix @ rs)]"

text \<open>Key generation in the log.\<close>

fun is_keygen :: "event \<Rightarrow> bool" where
  "is_keygen (EvGenerateKeypair r) = True"
| "is_keygen e = False"

text \<open>
  The identity checks of a run: each peer identifier derived from a remote public key
  and each signature verification.
\<close>

datatype check = Derived peer_ID | SigChecked

fun check_of :: "event \<Rightarrow> check list" where
  "check_of (EvIDFromPublicKey pk (Inr i)) = [Derived i]"
| "check_of (EvVerify k m sg r) = [SigChecked]"
| "check_of e = []"

definition checks :: "event list \<Rightarrow> check list" where
  "checks t = concat (map check_of t)"

text \<open>
  The keys and the signed byte strings of a run: the public key of the generated
  keypair, the public key of the static keypair handed to the engine, each byte
  string signed with the local identity key, the remote static key the engine
  reported and each byte string whose signature was verified.
\<close>

datatype binding = Generated bytes | EngineStatic bytes | Signed bytes | ReportedStatic bytes
  | Verified bytes

fun binding_of :: "event \<Rightarrow> binding list" where
  "binding_of (EvGenerateKeypair (Inr kp)) = [Generated (Public kp)]"
| "binding_of (EvNewHandshakeState cfg r) = [EngineStatic (Public (StaticKeypair cfg))]"
| "binding_of (EvSign k m r) = [Signed m]"
| "binding_of (EvPeerStatic rs) = [ReportedStatic rs]"
| "binding_of (EvVerify k m sg r) = [Verified m]"
| "binding_of e = []"

definition bindings :: "event list \<Rightarrow> binding list" where
  "bindings t = concat (map binding_of t)"

definition bindingSequence :: "bytes \<Rightarrow> bytes \<Rightarrow> binding list" where
  "bindingSequence pub rs =
     [Generated pub, EngineStatic pub, Signed (payloadSigPrefix @ pub),
      ReportedStatic rs, Verified (payloadSigPrefix @ rs)]"

text \<open>
  The pair of cipher states that a call of the engine returned, when it returned
  both.
\<close>

fun yielded :: "event \<Rightarrow> (CipherState \<times> CipherState) option" where
  "yielded (EvWriteMessage p (Inr (buf, Some a, Some b))) = Some (a, b)"
| "yielded (EvReadMessage raw (Inr (msg, Some a, Some b))) = Some (a, b)"
| "yielded e = None"

text \<open>The calls of the engine's message steps.\<close>

fun is_engine :: "event \<Rightarrow> bool" where
  "is_engine (EvWriteMessage p r) = True"
| "is_engine (EvReadMessage raw r) = True"
| "is_engine e = False"

text \<open>
  The number of engine calls in a log that returned both cipher states, and the
  number of signature verifications that answered true.
\<close>

definition yields :: "event list \<Rightarrow> nat" where
  "yields t = length (filter (\<lambda>e. yielded e \<noteq> None) t)"

fun verified_true :: "event \<Rightarrow> bool" where
  "verified_true (EvVerify k m sg (Inr ok)) = ok"
| "verified_true e = False"

definition verifications :: "event list \<Rightarrow> nat" where
  "verifications t = length (filter verified_true t)"

subsection \<open>Relations between states\<close>

text \<open>
  How a later state of a run relates to an earlier one: role and local key stay, the
  cipher states change only if an engine call returned both in between, the remote
  identity changes only if a signature verification answered true in between.
\<close>

definition progress :: "'w st \<Rightarrow> 'w st \<Rightarrow> bool" where
  "progress st st' \<longleftrightarrow>
     initiator (sess st') = initiator (sess st) \<and> localKey (sess st') = localKey (sess st) \<and>
     yields (calls st) \<le> yields (calls st') \<and>
     verifications (calls st) \<le> verifications (calls st') \<and>
     (yields (calls st') = yields (calls st) \<longrightarrow>
        enc (sess st') = enc (sess st) \<and> dec (sess st') = dec (sess st)) \<and>
     (verifications (calls st') = verifications (calls st) \<longrightarrow>
        remoteID (sess st') = remoteID (sess st) \<and> remoteKey (sess st') = remoteKey (sess st))"

text \<open>
  Two states that differ at most in the outcome fields, where the \<open>remoteID\<close> of a
  Responder counts as an outcome field: it is assigned by the run and never read.
\<close>

definition alike :: "'w st \<Rightarrow> 'w st \<Rightarrow> bool" where
  "alike a b \<longleftrightarrow>
     world a = world b \<and> calls a = calls b \<and>
     initiator (sess a) = initiator (sess b) \<and> localKey (sess a) = localKey (sess b) \<and>
     (initiator (sess a) \<longrightarrow> remoteID (sess a) = remoteID (sess b))"

text \<open>Two states that differ at most in the log.\<close>

definition unlogged :: "'w st \<Rightarrow> 'w st \<Rightarrow> bool" where
  "unlogged a b \<longleftrightarrow>
     world a = world b \<and>
     initiator (sess a) = initiator (sess b) \<and> localKey (sess a) = localKey (sess b) \<and>
     remoteID (sess a) = remoteID (sess b) \<and> remoteKey (sess a) = remoteKey (sess b) \<and>
     enc (sess a) = enc (sess b) \<and> dec (sess a) = dec (sess b)"

text \<open>
  A computation that maps related states to the same result and to related states:
  its result and its effects do not depend on what the relation leaves open.
\<close>

definition oblivious :: "('w st \<Rightarrow> 'w st \<Rightarrow> bool) \<Rightarrow> ('w st \<Rightarrow> 'a \<times> 'w st) \<Rightarrow> bool" where
  "oblivious R f \<longleftrightarrow>
     (\<forall>a b. R a b \<longrightarrow> fst (f a) = fst (f b) \<and> R (snd (f a)) (snd (f b)))"

subsection \<open>A concrete environment\<close>

text \<open>
  An engine that counts the messages it has processed and returns the two cipher
  states with the third, a transport that always delivers, and identity keys whose
  signature over \<open>m\<close> is \<open>sig:m\<close>. The definitions are evaluated on it.
\<close>

definition yield :: "nat \<Rightarrow> CipherState option \<times> CipherState option" where
  "yield n = (if n = 3 then (Some (CipherState 1), Some (CipherState 2)) else (None, None))"

definition test_env :: "nat env" where
  "test_env = \<lparr>
     GenerateKeypair = (\<lambda>w. (Inr \<lparr>Private = ''k'', Public = ''P''\<rparr>, w)),
     NewHandshakeState = (\<lambda>cfg w. (None, 0)),
     WriteMessage = (\<lambda>p w. (Inr (''m'' @ p, yield (Suc w)), Suc w)),
     ReadMessage = (\<lambda>raw w. (Inr (raw, yield (Suc w)), Suc w)),
     PeerStatic = (\<lambda>w. ''R''),
     writeMsgInsecure = (\<lambda>buf w. (None, w)),
     readMsgInsecure = (\<lambda>w. (Inr ''in'', w)),
     GetPublic = (\<lambda>k. PubKey 1),
     Bytes = (\<lambda>pk. Inr ''pk1''),
     Sign = (\<lambda>k m. Inr (''sig:'' @ m)),
     Marshal = (\<lambda>p. Inr (IdentityKey p @ ''|'' @ IdentitySig p)),
     Unmarshal = (\<lambda>b. Inr \<lparr>IdentityKey = ''pk2'',
                             IdentitySig = ''sig:noise-libp2p-static-key:R''\<rparr>),
     UnmarshalPublicKey = (\<lambda>b. Inr (PubKey 2)),
     IDFromPublicKey = (\<lambda>pk. Inr ''QmB''),
     Verify = (\<lambda>pk m sg. Inr (sg = ''sig:'' @ m)),
     Pretty = (\<lambda>i. i) \<rparr>"

definition test_session :: "bool \<Rightarrow> peer_ID \<Rightarrow> secureSession" where
  "test_session i rid = \<lparr>initiator = i, localKey = PrivKey 1, remoteID = rid,
     remoteKey = None, enc = None, dec = None\<rparr>"

definition test_st :: "bool \<Rightarrow> peer_ID \<Rightarrow> nat st" where
  "test_st i rid = \<lparr>sess = test_session i rid, world = 0, calls = []\<rparr>"

definition test_keypair :: DHKey where
  "test_keypair = \<lparr>Private = ''k'', Public = ''P''\<rparr>"

text \<open>
  Variants of the environment: identity keys whose verification answers false, a
  transport that cannot write, a transport that fails to write the frame of the
  third message, an identity key that cannot be serialized, a codec that cannot
  marshal.
\<close>

definition bad_signature_env :: "nat env" where
  "bad_signature_env = test_env\<lparr>Verify := (\<lambda>pk m sg. Inr False)\<rparr>"

definition write_fails_env :: "nat env" where
  "write_fails_env = test_env\<lparr>writeMsgInsecure := (\<lambda>buf w. (Some (External ''broken pipe''), w))\<rparr>"

definition late_write_fails_env :: "nat env" where
  "late_write_fails_env = test_env\<lparr>writeMsgInsecure :=
     (\<lambda>buf w. (if w = 3 then Some (External ''broken pipe'') else None, w))\<rparr>"

definition bytes_fails_env :: "nat env" where
  "bytes_fails_env = test_env\<lparr>Bytes := (\<lambda>pk. Inl (External ''bad key''))\<rparr>"

definition marshal_fails_env :: "nat env" where
  "marshal_fails_env = test_env\<lparr>Marshal := (\<lambda>p. Inl (External ''too large''))\<rparr>"

section \<open>Properties\<close>

subsection \<open>Unfolding\<close>

lemmas method_defs = handleRemoteHandshakePayload_def generateHandshakePayload_def
  readHandshakeMessage_def sendHandshakeMessage_def extern_def compute_def
  LocalPublicKey_def

lemmas run_defs = runHandshake_def initiatorStages_def responderStages_def method_defs
  setCipherStates_def

lemmas test_defs = test_env_def test_st_def test_session_def yield_def payloadSigPrefix_def
  cipherSuite_def

subsection \<open>Runs in the concrete environment\<close>

lemma test_st_simps:
  "sess (test_st i rid) = test_session i rid"
  "world (test_st i rid) = 0"
  "calls (test_st i rid) = []"
  "initiator (test_session i rid) = i"
  "localKey (test_session i rid) = PrivKey 1"
  "remoteID (test_session i rid) = rid"
  "remoteKey (test_session i rid) = None"
  "enc (test_session i rid) = None"
  "dec (test_session i rid) = None"
  by (simp_all add: test_st_def test_session_def)

lemma test_run_initiator:
  "runHandshake test_env (test_st True ''QmB'') =
     (None,
       \<lparr>sess =
          \<lparr>initiator = True, localKey = PrivKey 1, remoteID = ''QmB'', remoteKey = Some (PubKey 2),
             enc = Some (CipherState 1), dec = Some (CipherState 2)\<rparr>,
          world = 3,
          calls =
            [EvGenerateKeypair (Inr \<lparr>Private = ''k'', Public = ''P''\<rparr>),
             EvNewHandshakeState
              \<lparr>CipherSuite = NewCipherSuite DH25519 CipherChaChaPoly HashSHA256,
                 Pattern = HandshakeXX, Initiator = True,
                 StaticKeypair = \<lparr>Private = ''k'', Public = ''P''\<rparr>\<rparr>
              None,
             EvBytes (PubKey 1) (Inr ''pk1''),
             EvSign (PrivKey 1) ''noise-libp2p-static-key:P''
              (Inr ''sig:noise-libp2p-static-key:P''),
             EvMarshal \<lparr>IdentityKey = ''pk1'', IdentitySig = ''sig:noise-libp2p-static-key:P''\<rparr>
              (Inr ''pk1|sig:noise-libp2p-static-key:P''),
             EvWriteMessage [] (Inr (''m'', None, None)), EvWriteMsgInsecure ''m'' None,
             EvReadMsgInsecure (Inr ''in''), EvReadMessage ''in'' (Inr (''in'', None, None)),
             EvPeerStatic ''R'',
             EvUnmarshal ''in''
              (Inr \<lparr>IdentityKey = ''pk2'', IdentitySig = ''sig:noise-libp2p-static-key:R''\<rparr>),
             EvUnmarshalPublicKey ''pk2'' (Inr (PubKey 2)),
             EvIDFromPublicKey (PubKey 2) (Inr ''QmB''),
             EvVerify (PubKey 2) ''noise-libp2p-static-key:R'' ''sig:noise-libp2p-static-key:R''
              (Inr True),
             EvWriteMessage ''pk1|sig:noise-libp2p-static-key:P''
              (Inr (''mpk1|sig:noise-libp2p-static-key:P'', Some (CipherState 1),
                    Some (CipherState 2))),
             EvWriteMsgInsecure ''mpk1|sig:noise-libp2p-static-key:P'' None]\<rparr>)"
  by (simp add: run_defs test_defs Let_def)

lemma test_run_responder:
  "runHandshake test_env (test_st False []) =
     (None,
       \<lparr>sess =
          \<lparr>initiator = False, localKey = PrivKey 1, remoteID = ''QmB'', remoteKey = Some (PubKey 2),
             enc = Some (CipherState 2), dec = Some (CipherState 1)\<rparr>,
          world = 3,
          calls =
            [EvGenerateKeypair (Inr \<lparr>Private = ''k'', Public = ''P''\<rparr>),
             EvNewHandshakeState
              \<lparr>CipherSuite = NewCipherSuite DH25519 CipherChaChaPoly HashSHA256,
                 Pattern = HandshakeXX, Initiator = False,
                 StaticKeypair = \<lparr>Private = ''k'', Public = ''P''\<rparr>\<rparr>
              None,
             EvBytes (PubKey 1) (Inr ''pk1''),
             EvSign (PrivKey 1) ''noise-libp2p-static-key:P''
              (Inr ''sig:noise-libp2p-static-key:P''),
             EvMarshal \<lparr>IdentityKey = ''pk1'', IdentitySig = ''sig:noise-libp2p-static-key:P''\<rparr>
              (Inr ''pk1|sig:noise-libp2p-static-key:P''),
             EvReadMsgInsecure (Inr ''in''), EvReadMessage ''in'' (Inr (''in'', None, None)),
             EvWriteMessage ''pk1|sig:noise-libp2p-static-key:P''
              (Inr (''mpk1|sig:noise-libp2p-static-key:P'', None, None)),
             EvWriteMsgInsecure ''mpk1|sig:noise-libp2p-static-key:P'' None,
             EvReadMsgInsecure (Inr ''in''),
             EvReadMessage ''in'' (Inr (''in'', Some (CipherState 1), Some (CipherState 2))),
             EvPeerStatic ''R'',
             EvUnmarshal ''in''
              (Inr \<lparr>IdentityKey = ''pk2'', IdentitySig = ''sig:noise-libp2p-static-key:R''\<rparr>),
             EvUnmarshalPublicKey ''pk2'' (Inr (PubKey 2)),
             EvIDFromPublicKey (PubKey 2) (Inr ''QmB''),
             EvVerify (PubKey 2) ''noise-libp2p-static-key:R'' ''sig:noise-libp2p-static-key:R''
              (Inr True)]\<rparr>)"
  by (simp add: run_defs test_defs Let_def)

lemma test_run_mismatch:
  "runHandshake test_env (test_st True ''QmA'') =
     (Some (Errorf ''peer id mismatch: expected QmA, but remote key matches QmB''),
       \<lparr>sess =
          \<lparr>initiator = True, localKey = PrivKey 1, remoteID = ''QmA'', remoteKey = None, enc = None,
             dec = None\<rparr>,
          world = 2,
          calls =
            [EvGenerateKeypair (Inr \<lparr>Private = ''k'', Public = ''P''\<rparr>),
             EvNewHandshakeState
              \<lparr>CipherSuite = NewCipherSuite DH25519 CipherChaChaPoly HashSHA256,
                 Pattern = HandshakeXX, Initiator = True,
                 StaticKeypair = \<lparr>Private = ''k'', Public = ''P''\<rparr>\<rparr>
              None,
             EvBytes (PubKey 1) (Inr ''pk1''),
             EvSign (PrivKey 1) ''noise-libp2p-static-key:P''
              (Inr ''sig:noise-libp2p-static-key:P''),
             EvMarshal \<lparr>IdentityKey = ''pk1'', IdentitySig = ''sig:noise-libp2p-static-key:P''\<rparr>
              (Inr ''pk1|sig:noise-libp2p-static-key:P''),
             EvWriteMessage [] (Inr (''m'', None, None)), EvWriteMsgInsecure ''m'' None,
             EvReadMsgInsecure (Inr ''in''), EvReadMessage ''in'' (Inr (''in'', None, None)),
             EvPeerStatic ''R'',
             EvUnmarshal ''in''
              (Inr \<lparr>IdentityKey = ''pk2'', IdentitySig = ''sig:noise-libp2p-static-key:R''\<rparr>),
             EvUnmarshalPublicKey ''pk2'' (Inr (PubKey 2)),
             EvIDFromPublicKey (PubKey 2) (Inr ''QmB'')]\<rparr>)"
  by (simp add: run_defs test_defs Let_def)

lemma test_run_no_expectation:
  "runHandshake test_env (test_st True []) =
     (Some (Errorf ''peer id mismatch: expected , but remote key matches QmB''),
       \<lparr>sess =
          \<lparr>initiator = True, localKey = PrivKey 1, remoteID = [], remoteKey = None, enc = None,
             dec = None\<rparr>,
          world = 2,
          calls =
            [EvGenerateKeypair (Inr \<lparr>Private = ''k'', Public = ''P''\<rparr>),
             EvNewHandshakeState
              \<lparr>CipherSuite = NewCipherSuite DH25519 CipherChaChaPoly HashSHA256,
                 Pattern = HandshakeXX, Initiator = True,
                 StaticKeypair = \<lparr>Private = ''k'', Public = ''P''\<rparr>\<rparr>
              None,
             EvBytes (PubKey 1) (Inr ''pk1''),
             EvSign (PrivKey 1) ''noise-libp2p-static-key:P''
              (Inr ''sig:noise-libp2p-static-key:P''),
             EvMarshal \<lparr>IdentityKey = ''pk1'', IdentitySig = ''sig:noise-libp2p-static-key:P''\<rparr>
              (Inr ''pk1|sig:noise-libp2p-static-key:P''),
             EvWriteMessage [] (Inr (''m'', None, None)), EvWriteMsgInsecure ''m'' None,
             EvReadMsgInsecure (Inr ''in''), EvReadMessage ''in'' (Inr (''in'', None, None)),
             EvPeerStatic ''R'',
             EvUnmarshal ''in''
              (Inr \<lparr>IdentityKey = ''pk2'', IdentitySig = ''sig:noise-libp2p-static-key:R''\<rparr>),
             EvUnmarshalPublicKey ''pk2'' (Inr (PubKey 2)),
             EvIDFromPublicKey (PubKey 2) (Inr ''QmB'')]\<rparr>)"
  by (simp add: run_defs test_defs Let_def)

lemma test_run_bad_signature:
  "runHandshake bad_signature_env (test_st False []) =
     (Some (Errorf ''handshake signature invalid''),
       \<lparr>sess =
          \<lparr>initiator = False, localKey = PrivKey 1, remoteID = [], remoteKey = None,
             enc = Some (CipherState 2), dec = Some (CipherState 1)\<rparr>,
          world = 3,
          calls =
            [EvGenerateKeypair (Inr \<lparr>Private = ''k'', Public = ''P''\<rparr>),
             EvNewHandshakeState
              \<lparr>CipherSuite = NewCipherSuite DH25519 CipherChaChaPoly HashSHA256,
                 Pattern = HandshakeXX, Initiator = False,
                 StaticKeypair = \<lparr>Private = ''k'', Public = ''P''\<rparr>\<rparr>
              None,
             EvBytes (PubKey 1) (Inr ''pk1''),
             EvSign (PrivKey 1) ''noise-libp2p-static-key:P''
              (Inr ''sig:noise-libp2p-static-key:P''),
             EvMarshal \<lparr>IdentityKey = ''pk1'', IdentitySig = ''sig:noise-libp2p-static-key:P''\<rparr>
              (Inr ''pk1|sig:noise-libp2p-static-key:P''),
             EvReadMsgInsecure (Inr ''in''), EvReadMessage ''in'' (Inr (''in'', None, None)),
             EvWriteMessage ''pk1|sig:noise-libp2p-static-key:P''
              (Inr (''mpk1|sig:noise-libp2p-static-key:P'', None, None)),
             EvWriteMsgInsecure ''mpk1|sig:noise-libp2p-static-key:P'' None,
             EvReadMsgInsecure (Inr ''in''),
             EvReadMessage ''in'' (Inr (''in'', Some (CipherState 1), Some (CipherState 2))),
             EvPeerStatic ''R'',
             EvUnmarshal ''in''
              (Inr \<lparr>IdentityKey = ''pk2'', IdentitySig = ''sig:noise-libp2p-static-key:R''\<rparr>),
             EvUnmarshalPublicKey ''pk2'' (Inr (PubKey 2)),
             EvIDFromPublicKey (PubKey 2) (Inr ''QmB''),
             EvVerify (PubKey 2) ''noise-libp2p-static-key:R'' ''sig:noise-libp2p-static-key:R''
              (Inr False)]\<rparr>)"
  by (simp add: run_defs bad_signature_env_def test_defs Let_def)

lemma test_run_late_write_fails:
  "runHandshake late_write_fails_env (test_st True ''QmB'') =
     (Some (ErrorfW ''error sending handshake message: '' (External ''broken pipe'')),
       \<lparr>sess =
          \<lparr>initiator = True, localKey = PrivKey 1, remoteID = ''QmB'', remoteKey = Some (PubKey 2),
             enc = None, dec = None\<rparr>,
          world = 3,
          calls =
            [EvGenerateKeypair (Inr \<lparr>Private = ''k'', Public = ''P''\<rparr>),
             EvNewHandshakeState
              \<lparr>CipherSuite = NewCipherSuite DH25519 CipherChaChaPoly HashSHA256,
                 Pattern = HandshakeXX, Initiator = True,
                 StaticKeypair = \<lparr>Private = ''k'', Public = ''P''\<rparr>\<rparr>
              None,
             EvBytes (PubKey 1) (Inr ''pk1''),
             EvSign (PrivKey 1) ''noise-libp2p-static-key:P''
              (Inr ''sig:noise-libp2p-static-key:P''),
             EvMarshal \<lparr>IdentityKey = ''pk1'', IdentitySig = ''sig:noise-libp2p-static-key:P''\<rparr>
              (Inr ''pk1|sig:noise-libp2p-static-key:P''),
             EvWriteMessage [] (Inr (''m'', None, None)), EvWriteMsgInsecure ''m'' None,
             EvReadMsgInsecure (Inr ''in''), EvReadMessage ''in'' (Inr (''in'', None, None)),
             EvPeerStatic ''R'',
             EvUnmarshal ''in''
              (Inr \<lparr>IdentityKey = ''pk2'', IdentitySig = ''sig:noise-libp2p-static-key:R''\<rparr>),
             EvUnmarshalPublicKey ''pk2'' (Inr (PubKey 2)),
             EvIDFromPublicKey (PubKey 2) (Inr ''QmB''),
             EvVerify (PubKey 2) ''noise-libp2p-static-key:R'' ''sig:noise-libp2p-static-key:R''
              (Inr True),
             EvWriteMessage ''pk1|sig:noise-libp2p-static-key:P''
              (Inr (''mpk1|sig:noise-libp2p-static-key:P'', Some (CipherState 1),
                    Some (CipherState 2))),
             EvWriteMsgInsecure ''mpk1|sig:noise-libp2p-static-key:P''
              (Some (External ''broken pipe''))]\<rparr>)"
  by (simp add: run_defs late_write_fails_env_def test_defs Let_def)

subsection \<open>The log only grows\<close>

lemma extern_log:
  "extern ev f st = (r, st') \<Longrightarrow>
     calls st' = calls st @ [ev r] \<and> sess st' = sess st \<and> f (world st) = (r, world st')"
  by (auto simp: extern_def split: prod.splits)

lemma compute_log:
  "compute ev v st = (r, st') \<Longrightarrow>
     r = v \<and> calls st' = calls st @ [ev r] \<and> sess st' = sess st \<and> world st' = world st"
  by (auto simp: compute_def)

lemma send_grows:
  "sendHandshakeMessage env p st = (r, st') \<Longrightarrow> \<exists>t. calls st' = calls st @ t"
  by (auto simp: method_defs split: prod.splits sum.splits option.splits if_splits)

lemma read_grows:
  "readHandshakeMessage env st = (r, st') \<Longrightarrow> \<exists>t. calls st' = calls st @ t"
  by (auto simp: method_defs split: prod.splits sum.splits option.splits if_splits)

lemma generate_grows:
  "generateHandshakePayload env kp st = (r, st') \<Longrightarrow> \<exists>t. calls st' = calls st @ t"
  by (auto simp: method_defs Let_def split: prod.splits sum.splits option.splits if_splits)

lemma handle_grows:
  "handleRemoteHandshakePayload env p rs st = (r, st') \<Longrightarrow> \<exists>t. calls st' = calls st @ t"
  by (auto simp: method_defs Let_def split: prod.splits sum.splits option.splits if_splits)

lemma initiator_grows:
  "initiatorStages env payload st = (r, st') \<Longrightarrow> \<exists>t. calls st' = calls st @ t"
  apply (simp only: initiatorStages_def split: prod.splits option.splits sum.splits)
  apply (auto dest!: send_grows read_grows handle_grows extern_log)
  done

lemma responder_grows:
  "responderStages env payload st = (r, st') \<Longrightarrow> \<exists>t. calls st' = calls st @ t"
  apply (simp only: responderStages_def split: prod.splits option.splits sum.splits)
  apply (auto dest!: send_grows read_grows handle_grows extern_log)
  done

lemma run_grows:
  "runHandshake env st = (r, st') \<Longrightarrow> \<exists>t. calls st' = calls st @ t"
  apply (simp only: runHandshake_def Let_def split: prod.splits option.splits sum.splits if_splits)
  apply (auto dest!: extern_log generate_grows initiator_grows responder_grows)
  done

lemma since_append: "calls st' = calls st @ t \<Longrightarrow> since st st' = t"
  by (simp add: since_def)

subsection \<open>The message steps of each method\<close>

lemma steps_Nil [simp]: "steps [] = []"
  by (simp add: steps_def)

lemma steps_Cons [simp]: "steps (e # t) = step_of e @ steps t"
  by (simp add: steps_def)

lemma steps_append [simp]: "steps (a @ b) = steps a @ steps b"
  by (simp add: steps_def)

lemma send_steps:
  "sendHandshakeMessage env p st = (r, st') \<Longrightarrow>
     (r \<noteq> None \<and> steps (calls st') = steps (calls st) @ [Send p]) \<or>
     steps (calls st') = steps (calls st) @ [Send p, Written]"
  by (auto simp: method_defs split: prod.splits sum.splits option.splits if_splits)

lemma read_steps:
  "readHandshakeMessage env st = (r, st') \<Longrightarrow>
     steps (calls st') = steps (calls st) @
       (case r of Inl e \<Rightarrow> [Receive] | Inr pt \<Rightarrow> [Receive, Plaintext pt])"
  by (auto simp: method_defs split: prod.splits sum.splits option.splits if_splits)

lemma handle_steps:
  "handleRemoteHandshakePayload env p rs st = (r, st') \<Longrightarrow>
     (r \<noteq> None \<and> steps (calls st') = steps (calls st) @ [Decode p]) \<or>
     steps (calls st') = steps (calls st) @ [Decode p, Check (payloadSigPrefix @ rs)]"
  by (auto simp: method_defs Let_def split: prod.splits sum.splits option.splits if_splits)

lemma generate_steps:
  "generateHandshakePayload env kp st = (r, st') \<Longrightarrow>
     sess st' = sess st \<and>
     steps (calls st') = steps (calls st) @ (case r of Inl e \<Rightarrow> [] | Inr p \<Rightarrow> [Payload p])"
  by (auto simp: method_defs Let_def split: prod.splits sum.splits option.splits if_splits)

lemma initiator_steps:
  assumes "initiatorStages env payload st = (r, st')"
  shows "\<exists>pt rs sfx. steps (calls st') = steps (calls st) @ sfx \<and>
           prefix (Payload payload # sfx) (initiatorSequence payload pt rs) \<and>
           (r = None \<longrightarrow> Payload payload # sfx = initiatorSequence payload pt rs)"
  using assms
  apply (simp only: initiatorStages_def split: prod.splits option.splits sum.splits)
  apply (auto simp: initiatorSequence_def dest!: send_steps read_steps handle_steps extern_log)
  done

lemma responder_steps:
  assumes "responderStages env payload st = (r, st')"
  shows "\<exists>pt0 pt rs sfx. steps (calls st') = steps (calls st) @ sfx \<and>
           prefix (Payload payload # sfx) (responderSequence payload pt0 pt rs) \<and>
           (r = None \<longrightarrow> Payload payload # sfx = responderSequence payload pt0 pt rs)"
  using assms
  apply (simp only: responderStages_def split: prod.splits option.splits sum.splits)
  apply (auto simp: responderSequence_def dest!: send_steps read_steps handle_steps extern_log)
  done

lemma since_steps:
  assumes "\<exists>t. calls st' = calls st @ t" and "steps (calls st') = steps (calls st) @ sfx"
  shows "steps (since st st') = sfx"
proof -
  from assms(1) obtain t where t: "calls st' = calls st @ t" by blast
  with assms(2) have "steps t = sfx" by simp
  with t show ?thesis by (simp add: since_append)
qed

lemma run_steps_initiator:
  assumes "runHandshake env st = (r, st')" and "initiator (sess st)"
  shows "\<exists>payload pt rs sfx. steps (calls st') = steps (calls st) @ sfx \<and>
           prefix sfx (initiatorSequence payload pt rs) \<and>
           (r = None \<longrightarrow> sfx = initiatorSequence payload pt rs)"
  using assms
  apply (simp only: runHandshake_def Let_def split: prod.splits option.splits sum.splits if_splits)
  apply (auto dest!: extern_log generate_steps initiator_steps)
   apply blast+
  done

lemma run_steps_responder:
  assumes "runHandshake env st = (r, st')" and "\<not> initiator (sess st)"
  shows "\<exists>payload pt0 pt rs sfx. steps (calls st') = steps (calls st) @ sfx \<and>
           prefix sfx (responderSequence payload pt0 pt rs) \<and>
           (r = None \<longrightarrow> sfx = responderSequence payload pt0 pt rs)"
  using assms
  apply (simp only: runHandshake_def Let_def split: prod.splits option.splits sum.splits if_splits)
  apply (auto dest!: extern_log generate_steps responder_steps)
   apply blast+
  done

subsection \<open>C1: the role-specific sequence of three messages\<close>

text \<open>
  Claim C1. Whatever the collaborators do, the message steps of a run of
  \<open>runHandshake\<close> are an initial part of the sequence fixed for the session's role,
  and all of it when the run returns no error. For an Initiator: send message 1 with
  the empty payload, receive message 2, decode the plaintext the engine returned and
  check its signature over the prefix and the remote static key the engine reported,
  send message 3 with the payload this side built. For a Responder: receive message
  1 (its plaintext is not decoded), send message 2 with the own payload, receive
  message 3, decode and check it. No other order of sends and receives occurs.
\<close>

theorem runHandshake_sequence:
  assumes "runHandshake env st = (r, st')"
  shows "\<exists>payload pt0 pt rs.
           (if initiator (sess st)
            then prefix (steps (since st st')) (initiatorSequence payload pt rs) \<and>
                 (r = None \<longrightarrow> steps (since st st') = initiatorSequence payload pt rs)
            else prefix (steps (since st st')) (responderSequence payload pt0 pt rs) \<and>
                 (r = None \<longrightarrow> steps (since st st') = responderSequence payload pt0 pt rs))"
proof (cases "initiator (sess st)")
  case True
  from run_steps_initiator [OF assms True] obtain payload pt rs sfx where
    sfx: "steps (calls st') = steps (calls st) @ sfx" and
    shape: "prefix sfx (initiatorSequence payload pt rs)"
           "r = None \<longrightarrow> sfx = initiatorSequence payload pt rs"
    by blast
  have "steps (since st st') = sfx"
    using run_grows [OF assms] sfx by (rule since_steps)
  with shape True show ?thesis by auto
next
  case False
  from run_steps_responder [OF assms False] obtain payload pt0 pt rs sfx where
    sfx: "steps (calls st') = steps (calls st) @ sfx" and
    shape: "prefix sfx (responderSequence payload pt0 pt rs)"
           "r = None \<longrightarrow> sfx = responderSequence payload pt0 pt rs"
    by blast
  have "steps (since st st') = sfx"
    using run_grows [OF assms] sfx by (rule since_steps)
  with shape False show ?thesis by auto
qed

theorem runHandshake_sequence_witness:
  "fst (runHandshake test_env (test_st True ''QmB'')) = None \<and>
   steps (calls (snd (runHandshake test_env (test_st True ''QmB'')))) =
     initiatorSequence ''pk1|sig:noise-libp2p-static-key:P'' ''in'' ''R'' \<and>
   fst (runHandshake test_env (test_st False [])) = None \<and>
   steps (calls (snd (runHandshake test_env (test_st False [])))) =
     responderSequence ''pk1|sig:noise-libp2p-static-key:P'' ''in'' ''in'' ''R''"
  using runHandshake_sequence [OF test_run_initiator]
        runHandshake_sequence [OF test_run_responder]
  by (simp add: test_run_initiator test_run_responder since_def test_st_simps
        initiatorSequence_def responderSequence_def payloadSigPrefix_def)

subsection \<open>C8: one key generation for each run\<close>

lemma send_keygen:
  "sendHandshakeMessage env p st = (r, st') \<Longrightarrow>
     filter is_keygen (calls st') = filter is_keygen (calls st)"
  by (auto simp: method_defs split: prod.splits sum.splits option.splits if_splits)

lemma read_keygen:
  "readHandshakeMessage env st = (r, st') \<Longrightarrow>
     filter is_keygen (calls st') = filter is_keygen (calls st)"
  by (auto simp: method_defs split: prod.splits sum.splits option.splits if_splits)

lemma generate_keygen:
  "generateHandshakePayload env kp st = (r, st') \<Longrightarrow>
     filter is_keygen (calls st') = filter is_keygen (calls st)"
  by (auto simp: method_defs Let_def split: prod.splits sum.splits option.splits if_splits)

lemma handle_keygen:
  "handleRemoteHandshakePayload env p rs st = (r, st') \<Longrightarrow>
     filter is_keygen (calls st') = filter is_keygen (calls st)"
  by (auto simp: method_defs Let_def split: prod.splits sum.splits option.splits if_splits)

lemma initiator_keygen:
  "initiatorStages env payload st = (r, st') \<Longrightarrow>
     filter is_keygen (calls st') = filter is_keygen (calls st)"
  apply (simp only: initiatorStages_def split: prod.splits option.splits sum.splits)
  apply (auto dest!: send_keygen read_keygen handle_keygen extern_log)
  done

lemma responder_keygen:
  "responderStages env payload st = (r, st') \<Longrightarrow>
     filter is_keygen (calls st') = filter is_keygen (calls st)"
  apply (simp only: responderStages_def split: prod.splits option.splits sum.splits)
  apply (auto dest!: send_keygen read_keygen handle_keygen extern_log)
  done

lemma run_keygen:
  "runHandshake env st = (r, st') \<Longrightarrow>
     \<exists>k. filter is_keygen (calls st') = filter is_keygen (calls st) @ [EvGenerateKeypair k]"
  apply (simp only: runHandshake_def Let_def split: prod.splits option.splits sum.splits if_splits)
  apply (auto dest!: extern_log generate_keygen initiator_keygen responder_keygen)
  done

lemma run_first:
  "runHandshake env st = (r, st') \<Longrightarrow>
     \<exists>k rest. calls st' = calls st @ EvGenerateKeypair k # rest"
  apply (simp only: runHandshake_def Let_def split: prod.splits option.splits sum.splits if_splits)
  apply (auto dest!: extern_log generate_grows initiator_grows responder_grows)
  done

text \<open>
  Claim C8. In every run of \<open>runHandshake\<close>, whatever its outcome, the first call is
  the generation of the keypair, so it comes before any message is written or read,
  and no later call of the run generates a keypair.
\<close>

theorem runHandshake_one_keypair:
  assumes "runHandshake env st = (r, st')"
  shows "\<exists>k rest. since st st' = EvGenerateKeypair k # rest \<and> filter is_keygen rest = []"
proof -
  from run_first [OF assms] obtain k rest where
    c: "calls st' = calls st @ EvGenerateKeypair k # rest" by blast
  from run_keygen [OF assms] obtain k' where
    "filter is_keygen (calls st') = filter is_keygen (calls st) @ [EvGenerateKeypair k']" by blast
  with c have "filter is_keygen rest = []" by simp
  moreover from c have "since st st' = EvGenerateKeypair k # rest" by (rule since_append)
  ultimately show ?thesis by blast
qed

theorem runHandshake_one_keypair_witness:
  "fst (runHandshake test_env (test_st False [])) = None \<and>
   filter is_keygen (since (test_st False []) (snd (runHandshake test_env (test_st False [])))) =
     [EvGenerateKeypair (Inr \<lparr>Private = ''k'', Public = ''P''\<rparr>)] \<and>
   hd (since (test_st False []) (snd (runHandshake test_env (test_st False [])))) =
     EvGenerateKeypair (Inr \<lparr>Private = ''k'', Public = ''P''\<rparr>)"
  using runHandshake_one_keypair [OF test_run_responder]
  by (simp add: test_run_responder since_def test_st_simps)

subsection \<open>C10: verification of the remote payload is atomic\<close>

text \<open>
  Claim C10. On every error return of \<open>handleRemoteHandshakePayload\<close> the session is
  exactly as before the call, so \<open>remoteID\<close> and \<open>remoteKey\<close> are. When it returns
  no error, the payload decoded, the key was unmarshalled, the peer identifier was
  derived, an Initiator's \<open>remoteID\<close> equalled it and the signature verified as true;
  only then are \<open>remoteID\<close> and \<open>remoteKey\<close> assigned, and nothing else is.
\<close>

theorem handleRemoteHandshakePayload_atomic:
  assumes "handleRemoteHandshakePayload env payload remoteStatic st = (r, st')"
  shows "(r \<noteq> None \<longrightarrow> sess st' = sess st) \<and>
         (r = None \<longrightarrow>
           (\<exists>nhp pk pid.
              Unmarshal env payload = Inr nhp \<and>
              UnmarshalPublicKey env (IdentityKey nhp) = Inr pk \<and>
              IDFromPublicKey env pk = Inr pid \<and>
              (initiator (sess st) \<longrightarrow> remoteID (sess st) = pid) \<and>
              Verify env pk (payloadSigPrefix @ remoteStatic) (IdentitySig nhp) = Inr True \<and>
              sess st' = (sess st)\<lparr>remoteID := pid, remoteKey := Some pk\<rparr>))"
  using assms
  by (auto simp: method_defs Let_def split: prod.splits sum.splits option.splits if_splits)

theorem handleRemoteHandshakePayload_atomic_witness:
  "fst (handleRemoteHandshakePayload bad_signature_env ''in'' ''R'' (test_st False [])) =
     Some (Errorf ''handshake signature invalid'') \<and>
   sess (snd (handleRemoteHandshakePayload bad_signature_env ''in'' ''R'' (test_st False []))) =
     sess (test_st False []) \<and>
   fst (handleRemoteHandshakePayload test_env ''in'' ''R'' (test_st False [])) = None \<and>
   sess (snd (handleRemoteHandshakePayload test_env ''in'' ''R'' (test_st False []))) =
     (sess (test_st False []))\<lparr>remoteID := ''QmB'', remoteKey := Some (PubKey 2)\<rparr>"
  using handleRemoteHandshakePayload_atomic [of bad_signature_env "''in''" "''R''"
          "test_st False []" "Some (Errorf ''handshake signature invalid'')"
          "snd (handleRemoteHandshakePayload bad_signature_env ''in'' ''R'' (test_st False []))"]
        handleRemoteHandshakePayload_atomic [of test_env "''in''" "''R''"
          "test_st False []" None
          "snd (handleRemoteHandshakePayload test_env ''in'' ''R'' (test_st False []))"]
  by (simp add: method_defs bad_signature_env_def test_defs Let_def)

subsection \<open>What the message methods leave alone\<close>

lemma send_identity:
  "sendHandshakeMessage env p st = (r, st') \<Longrightarrow>
     initiator (sess st') = initiator (sess st) \<and> remoteID (sess st') = remoteID (sess st) \<and>
     remoteKey (sess st') = remoteKey (sess st) \<and> localKey (sess st') = localKey (sess st)"
  by (auto simp: method_defs setCipherStates_def
           split: prod.splits sum.splits option.splits if_splits)

lemma read_identity:
  "readHandshakeMessage env st = (r, st') \<Longrightarrow>
     initiator (sess st') = initiator (sess st) \<and> remoteID (sess st') = remoteID (sess st) \<and>
     remoteKey (sess st') = remoteKey (sess st) \<and> localKey (sess st') = localKey (sess st)"
  by (auto simp: method_defs setCipherStates_def
           split: prod.splits sum.splits option.splits if_splits)

lemma generate_sess:
  "generateHandshakePayload env kp st = (r, st') \<Longrightarrow> sess st' = sess st"
  by (auto simp: method_defs Let_def split: prod.splits sum.splits option.splits if_splits)

subsection \<open>C4: a mismatching peer identifier aborts before the signature is checked\<close>

lemma checks_Nil [simp]: "checks [] = []"
  by (simp add: checks_def)

lemma checks_Cons [simp]: "checks (e # t) = check_of e @ checks t"
  by (simp add: checks_def)

lemma checks_append [simp]: "checks (a @ b) = checks a @ checks b"
  by (simp add: checks_def)

lemma send_checks:
  "sendHandshakeMessage env p st = (r, st') \<Longrightarrow> checks (calls st') = checks (calls st)"
  by (auto simp: method_defs split: prod.splits sum.splits option.splits if_splits)

lemma read_checks:
  "readHandshakeMessage env st = (r, st') \<Longrightarrow> checks (calls st') = checks (calls st)"
  by (auto simp: method_defs split: prod.splits sum.splits option.splits if_splits)

lemma generate_checks:
  "generateHandshakePayload env kp st = (r, st') \<Longrightarrow> checks (calls st') = checks (calls st)"
  by (auto simp: method_defs Let_def split: prod.splits sum.splits option.splits if_splits)

lemma handle_checks:
  assumes "handleRemoteHandshakePayload env p rs st = (r, st')" and "initiator (sess st)"
  shows "checks (calls st') = checks (calls st) \<or>
         (\<exists>pid. remoteID (sess st) \<noteq> pid \<and>
            r = Some (Errorf (''peer id mismatch: expected '' @ Pretty env (remoteID (sess st))
                              @ '', but remote key matches '' @ Pretty env pid)) \<and>
            checks (calls st') = checks (calls st) @ [Derived pid]) \<or>
         checks (calls st') = checks (calls st) @ [Derived (remoteID (sess st)), SigChecked]"
  using assms
  by (auto simp: method_defs Let_def split: prod.splits sum.splits option.splits if_splits)

lemma initiator_checks:
  assumes "initiatorStages env payload st = (r, st')" and "initiator (sess st)"
  shows "checks (calls st') = checks (calls st) \<or>
         (\<exists>pid. remoteID (sess st) \<noteq> pid \<and>
            r = Some (Errorf (''peer id mismatch: expected '' @ Pretty env (remoteID (sess st))
                              @ '', but remote key matches '' @ Pretty env pid)) \<and>
            checks (calls st') = checks (calls st) @ [Derived pid]) \<or>
         checks (calls st') = checks (calls st) @ [Derived (remoteID (sess st)), SigChecked]"
proof -
  obtain r1 st1 where s1: "sendHandshakeMessage env [] st = (r1, st1)" by fastforce
  obtain r2 st2 where s2: "readHandshakeMessage env st1 = (r2, st2)" by fastforce
  obtain rs st3 where s3: "extern EvPeerStatic (\<lambda>w. (PeerStatic env w, w)) st2 = (rs, st3)"
    by fastforce
  have c3: "checks (calls st3) = checks (calls st)"
    using send_checks [OF s1] read_checks [OF s2] extern_log [OF s3] by simp
  have i3: "initiator (sess st3)" "remoteID (sess st3) = remoteID (sess st)"
    using send_identity [OF s1] read_identity [OF s2] extern_log [OF s3] assms(2) by simp_all
  show ?thesis
  proof (cases r1)
    case (Some e)
    with assms(1) s1 have "st' = st1" by (simp add: initiatorStages_def)
    with send_checks [OF s1] show ?thesis by simp
  next
    case None
    note r1 = this
    show ?thesis
    proof (cases r2)
      case (Inl e)
      with assms(1) s1 s2 r1 have "st' = st2" by (simp add: initiatorStages_def)
      with send_checks [OF s1] read_checks [OF s2] show ?thesis by simp
    next
      case (Inr plaintext)
      note r2 = this
      obtain r4 st4 where s4: "handleRemoteHandshakePayload env plaintext rs st3 = (r4, st4)"
        by fastforce
      note h = handle_checks [OF s4 i3(1)]
      show ?thesis
      proof (cases r4)
        case (Some e)
        with assms(1) s1 s2 s3 s4 r1 r2 have "st' = st4" "r = r4"
          by (simp_all add: initiatorStages_def)
        with h c3 i3 show ?thesis by auto
      next
        case None
        obtain r5 st5 where s5: "sendHandshakeMessage env payload st4 = (r5, st5)" by fastforce
        with assms(1) s1 s2 s3 s4 r1 r2 None have "st' = st5"
          by (simp add: initiatorStages_def split: option.splits)
        with h None c3 i3 send_checks [OF s5] show ?thesis by auto
      qed
    qed
  qed
qed

lemma run_checks:
  assumes "runHandshake env st = (r, st')" and "initiator (sess st)"
  shows "checks (calls st') = checks (calls st) \<or>
         (\<exists>pid. remoteID (sess st) \<noteq> pid \<and>
            r = Some (Errorf (''peer id mismatch: expected '' @ Pretty env (remoteID (sess st))
                              @ '', but remote key matches '' @ Pretty env pid)) \<and>
            checks (calls st') = checks (calls st) @ [Derived pid]) \<or>
         checks (calls st') = checks (calls st) @ [Derived (remoteID (sess st)), SigChecked]"
proof -
  obtain r1 st1 where s1: "extern EvGenerateKeypair (GenerateKeypair env) st = (r1, st1)"
    by fastforce
  note l1 = extern_log [OF s1]
  show ?thesis
  proof (cases r1)
    case (Inl e)
    with assms(1) s1 have "st' = st1" by (simp add: runHandshake_def)
    with l1 Inl show ?thesis by simp
  next
    case (Inr kp)
    define cfg where "cfg = \<lparr>CipherSuite = cipherSuite, Pattern = HandshakeXX,
                      Initiator = initiator (sess st1), StaticKeypair = kp\<rparr>"
    obtain r2 st2 where
      s2: "extern (EvNewHandshakeState cfg) (NewHandshakeState env cfg) st1 = (r2, st2)"
      by fastforce
    note l2 = extern_log [OF s2]
    show ?thesis
    proof (cases r2)
      case (Some e)
      with assms(1) s1 s2 Inr have "st' = st2" by (simp add: runHandshake_def cfg_def)
      with l1 l2 Inr show ?thesis by simp
    next
      case None
      obtain r3 st3 where s3: "generateHandshakePayload env kp st2 = (r3, st3)" by fastforce
      have c3: "checks (calls st3) = checks (calls st)" "sess st3 = sess st"
        using l1 l2 generate_checks [OF s3] generate_sess [OF s3] Inr by simp_all
      show ?thesis
      proof (cases r3)
        case (Inl e)
        with assms(1) s1 s2 s3 Inr None have "st' = st3"
          by (simp add: runHandshake_def cfg_def)
        with c3 show ?thesis by simp
      next
        case (Inr payload)
        with assms s1 s2 s3 \<open>r1 = Inr kp\<close> None c3
        have "initiatorStages env payload st3 = (r, st')"
          by (simp add: runHandshake_def cfg_def)
        from initiator_checks [OF this] assms(2) c3 show ?thesis by simp
      qed
    qed
  qed
qed

text \<open>
  Claim C4. The expected peer identifier is supplied by dialing, that is to an
  Initiator session, in its field \<open>remoteID\<close>. When the payload decodes, the key
  unmarshals and the identifier derived from it differs from \<open>remoteID\<close>,
  \<open>handleRemoteHandshakePayload\<close> returns the identity-mismatch error with the
  session unchanged; the last call it made is the derivation, so the signature was
  not verified. A run of \<open>runHandshake\<close> in which such an identifier is derived
  returns that error, and that derivation is the only identity check of the run.
\<close>

theorem identity_mismatch_aborts:
  "(initiator (sess st) \<and> Unmarshal env payload = Inr nhp \<and>
    UnmarshalPublicKey env (IdentityKey nhp) = Inr pk \<and> IDFromPublicKey env pk = Inr pid \<and>
    remoteID (sess st) \<noteq> pid \<longrightarrow>
      handleRemoteHandshakePayload env payload remoteStatic st =
        (Some (Errorf (''peer id mismatch: expected '' @ Pretty env (remoteID (sess st))
                       @ '', but remote key matches '' @ Pretty env pid)),
         st\<lparr>calls := calls st @ [EvUnmarshal payload (Inr nhp),
                                  EvUnmarshalPublicKey (IdentityKey nhp) (Inr pk),
                                  EvIDFromPublicKey pk (Inr pid)]\<rparr>)) \<and>
   (runHandshake env st0 = (r, st') \<and> initiator (sess st0) \<and>
    Derived pid' \<in> set (checks (since st0 st')) \<and> remoteID (sess st0) \<noteq> pid' \<longrightarrow>
      r = Some (Errorf (''peer id mismatch: expected '' @ Pretty env (remoteID (sess st0))
                        @ '', but remote key matches '' @ Pretty env pid')) \<and>
      checks (since st0 st') = [Derived pid'])"
proof -
  let ?mm = "\<lambda>s p. Errorf (''peer id mismatch: expected '' @ Pretty env (remoteID (sess s))
                              @ '', but remote key matches '' @ Pretty env p)"
  have direct: "handleRemoteHandshakePayload env payload remoteStatic st =
        (Some (?mm st pid),
         st\<lparr>calls := calls st @ [EvUnmarshal payload (Inr nhp),
                                  EvUnmarshalPublicKey (IdentityKey nhp) (Inr pk),
                                  EvIDFromPublicKey pk (Inr pid)]\<rparr>)"
    if "initiator (sess st) \<and> Unmarshal env payload = Inr nhp \<and>
        UnmarshalPublicKey env (IdentityKey nhp) = Inr pk \<and> IDFromPublicKey env pk = Inr pid \<and>
        remoteID (sess st) \<noteq> pid"
    using that by (simp add: method_defs)
  have whole: "r = Some (?mm st0 pid') \<and> checks (since st0 st') = [Derived pid']"
    if a: "runHandshake env st0 = (r, st') \<and> initiator (sess st0) \<and>
           Derived pid' \<in> set (checks (since st0 st')) \<and> remoteID (sess st0) \<noteq> pid'"
  proof -
    from a have rn: "runHandshake env st0 = (r, st')" and ini: "initiator (sess st0)"
      and mem: "Derived pid' \<in> set (checks (since st0 st'))"
      and ne: "remoteID (sess st0) \<noteq> pid'" by simp_all
    from run_grows [OF rn] obtain t where t: "calls st' = calls st0 @ t" by blast
    then have s: "since st0 st' = t" by (rule since_append)
    from run_checks [OF rn ini] t
    have "checks t = [] \<or>
          (\<exists>pid. remoteID (sess st0) \<noteq> pid \<and> r = Some (?mm st0 pid) \<and>
                 checks t = [Derived pid]) \<or>
          checks t = [Derived (remoteID (sess st0)), SigChecked]"
      by simp
    with mem ne s show ?thesis by auto
  qed
  from direct whole show ?thesis by blast
qed

theorem identity_mismatch_aborts_witness:
  "initiator (sess (test_st True ''QmA'')) \<and>
   Unmarshal test_env ''in'' =
     Inr \<lparr>IdentityKey = ''pk2'', IdentitySig = ''sig:noise-libp2p-static-key:R''\<rparr> \<and>
   UnmarshalPublicKey test_env ''pk2'' = Inr (PubKey 2) \<and>
   IDFromPublicKey test_env (PubKey 2) = Inr ''QmB'' \<and>
   remoteID (sess (test_st True ''QmA'')) \<noteq> ''QmB'' \<and>
   fst (handleRemoteHandshakePayload test_env ''in'' ''R'' (test_st True ''QmA'')) =
     Some (Errorf ''peer id mismatch: expected QmA, but remote key matches QmB'') \<and>
   Derived ''QmB'' \<in> set (checks (since (test_st True ''QmA'')
                                (snd (runHandshake test_env (test_st True ''QmA''))))) \<and>
   fst (runHandshake test_env (test_st True ''QmA'')) =
     Some (Errorf ''peer id mismatch: expected QmA, but remote key matches QmB'')"
  using identity_mismatch_aborts [of "test_st True ''QmA''" test_env "''in''"
          "\<lparr>IdentityKey = ''pk2'', IdentitySig = ''sig:noise-libp2p-static-key:R''\<rparr>"
          "PubKey 2" "''QmB''" "''R''" "test_st True ''QmA''"
          "fst (runHandshake test_env (test_st True ''QmA''))"
          "snd (runHandshake test_env (test_st True ''QmA''))" "''QmB''"]
  by (simp add: test_run_mismatch since_def test_st_simps) (simp add: method_defs test_defs)

subsection \<open>C3: the signed and the verified byte strings\<close>

lemma bindings_Nil [simp]: "bindings [] = []"
  by (simp add: bindings_def)

lemma bindings_Cons [simp]: "bindings (e # t) = binding_of e @ bindings t"
  by (simp add: bindings_def)

lemma bindings_append [simp]: "bindings (a @ b) = bindings a @ bindings b"
  by (simp add: bindings_def)

lemma since_bindings:
  assumes "\<exists>t. calls st' = calls st @ t" and "bindings (calls st') = bindings (calls st) @ sfx"
  shows "bindings (since st st') = sfx"
proof -
  from assms(1) obtain t where t: "calls st' = calls st @ t" by blast
  with assms(2) have "bindings t = sfx" by simp
  with t show ?thesis by (simp add: since_append)
qed

lemma send_bindings:
  "sendHandshakeMessage env p st = (r, st') \<Longrightarrow> bindings (calls st') = bindings (calls st)"
  by (auto simp: method_defs split: prod.splits sum.splits option.splits if_splits)

lemma read_bindings:
  "readHandshakeMessage env st = (r, st') \<Longrightarrow> bindings (calls st') = bindings (calls st)"
  by (auto simp: method_defs split: prod.splits sum.splits option.splits if_splits)

lemma generate_bindings:
  "generateHandshakePayload env kp st = (r, st') \<Longrightarrow>
     (isl r \<and> bindings (calls st') = bindings (calls st)) \<or>
     bindings (calls st') = bindings (calls st) @ [Signed (payloadSigPrefix @ Public kp)]"
  by (auto simp: method_defs Let_def split: prod.splits sum.splits option.splits if_splits)

lemma handle_bindings:
  "handleRemoteHandshakePayload env p rs st = (r, st') \<Longrightarrow>
     (r \<noteq> None \<and> bindings (calls st') = bindings (calls st)) \<or>
     bindings (calls st') = bindings (calls st) @ [Verified (payloadSigPrefix @ rs)]"
  by (auto simp: method_defs Let_def split: prod.splits sum.splits option.splits if_splits)

lemma initiator_bindings:
  assumes "initiatorStages env payload st = (r, st')"
  shows "\<exists>rs sfx. bindings (calls st') = bindings (calls st) @ sfx \<and>
           prefix sfx [ReportedStatic rs, Verified (payloadSigPrefix @ rs)] \<and>
           (r = None \<longrightarrow> sfx = [ReportedStatic rs, Verified (payloadSigPrefix @ rs)])"
  using assms
  apply (simp only: initiatorStages_def split: prod.splits option.splits sum.splits)
  apply (auto dest!: send_bindings read_bindings handle_bindings extern_log)
  done

lemma responder_bindings:
  assumes "responderStages env payload st = (r, st')"
  shows "\<exists>rs sfx. bindings (calls st') = bindings (calls st) @ sfx \<and>
           prefix sfx [ReportedStatic rs, Verified (payloadSigPrefix @ rs)] \<and>
           (r = None \<longrightarrow> sfx = [ReportedStatic rs, Verified (payloadSigPrefix @ rs)])"
  using assms
  apply (simp only: responderStages_def split: prod.splits option.splits sum.splits)
  apply (auto dest!: send_bindings read_bindings handle_bindings extern_log)
  done

lemma run_bindings:
  assumes "runHandshake env st = (r, st')"
  shows "\<exists>pub rs sfx. bindings (calls st') = bindings (calls st) @ sfx \<and>
           prefix sfx (bindingSequence pub rs) \<and>
           (r = None \<longrightarrow> sfx = bindingSequence pub rs)"
  using assms
  apply (simp only: runHandshake_def Let_def split: prod.splits option.splits sum.splits if_splits)
  apply (auto simp: bindingSequence_def
              dest!: extern_log generate_bindings initiator_bindings responder_bindings)
  done

text \<open>
  Claim C3. The only byte string that \<open>generateHandshakePayload\<close> signs is the prefix
  constant followed by the public key of its argument, and the only byte string whose
  signature \<open>handleRemoteHandshakePayload\<close> verifies is the same constant followed by
  its argument \<open>remoteStatic\<close>. In a run of \<open>runHandshake\<close> the first is the public key
  of the keypair that was generated and handed to the engine as its static keypair,
  the second the remote static key that the engine reported.
\<close>

theorem signed_and_verified_bytes:
  "(generateHandshakePayload env localStatic st = (r1, st1) \<longrightarrow>
      prefix (bindings (since st st1)) [Signed (payloadSigPrefix @ Public localStatic)] \<and>
      (\<not> isl r1 \<longrightarrow> bindings (since st st1) = [Signed (payloadSigPrefix @ Public localStatic)])) \<and>
   (handleRemoteHandshakePayload env payload remoteStatic st = (r2, st2) \<longrightarrow>
      prefix (bindings (since st st2)) [Verified (payloadSigPrefix @ remoteStatic)] \<and>
      (r2 = None \<longrightarrow> bindings (since st st2) = [Verified (payloadSigPrefix @ remoteStatic)])) \<and>
   (runHandshake env st = (r, st') \<longrightarrow>
      (\<exists>pub rs. prefix (bindings (since st st')) (bindingSequence pub rs) \<and>
                (r = None \<longrightarrow> bindings (since st st') = bindingSequence pub rs)))"
proof -
  have gen: "prefix (bindings (since st st1)) [Signed (payloadSigPrefix @ Public localStatic)] \<and>
      (\<not> isl r1 \<longrightarrow> bindings (since st st1) = [Signed (payloadSigPrefix @ Public localStatic)])"
    if g: "generateHandshakePayload env localStatic st = (r1, st1)"
  proof -
    from generate_bindings [OF g] show ?thesis
    proof
      assume "isl r1 \<and> bindings (calls st1) = bindings (calls st)"
      then have "isl r1" "bindings (calls st1) = bindings (calls st) @ []" by simp_all
      with since_bindings [OF generate_grows [OF g]] show ?thesis by simp
    next
      assume "bindings (calls st1) =
              bindings (calls st) @ [Signed (payloadSigPrefix @ Public localStatic)]"
      with since_bindings [OF generate_grows [OF g]] show ?thesis by simp
    qed
  qed
  have hdl: "prefix (bindings (since st st2)) [Verified (payloadSigPrefix @ remoteStatic)] \<and>
      (r2 = None \<longrightarrow> bindings (since st st2) = [Verified (payloadSigPrefix @ remoteStatic)])"
    if h: "handleRemoteHandshakePayload env payload remoteStatic st = (r2, st2)"
  proof -
    from handle_bindings [OF h] show ?thesis
    proof
      assume "r2 \<noteq> None \<and> bindings (calls st2) = bindings (calls st)"
      then have "r2 \<noteq> None" "bindings (calls st2) = bindings (calls st) @ []" by simp_all
      with since_bindings [OF handle_grows [OF h]] show ?thesis by simp
    next
      assume "bindings (calls st2) =
              bindings (calls st) @ [Verified (payloadSigPrefix @ remoteStatic)]"
      with since_bindings [OF handle_grows [OF h]] show ?thesis by simp
    qed
  qed
  have whole: "\<exists>pub rs. prefix (bindings (since st st')) (bindingSequence pub rs) \<and>
                (r = None \<longrightarrow> bindings (since st st') = bindingSequence pub rs)"
    if rn: "runHandshake env st = (r, st')"
  proof -
    from run_bindings [OF rn] obtain pub rs sfx where
      sfx: "bindings (calls st') = bindings (calls st) @ sfx" and
      shape: "prefix sfx (bindingSequence pub rs)" "r = None \<longrightarrow> sfx = bindingSequence pub rs"
      by blast
    have "bindings (since st st') = sfx"
      using run_grows [OF rn] sfx by (rule since_bindings)
    with shape show ?thesis by auto
  qed
  from gen hdl whole show ?thesis by blast
qed

theorem signed_and_verified_bytes_witness:
  "fst (runHandshake test_env (test_st True ''QmB'')) = None \<and>
   bindings (since (test_st True ''QmB'') (snd (runHandshake test_env (test_st True ''QmB'')))) =
     bindingSequence ''P'' ''R'' \<and>
   \<not> isl (fst (generateHandshakePayload test_env \<lparr>Private = ''k'', Public = ''P''\<rparr>
                 (test_st True ''QmB''))) \<and>
   bindings (since (test_st True ''QmB'')
      (snd (generateHandshakePayload test_env \<lparr>Private = ''k'', Public = ''P''\<rparr>
              (test_st True ''QmB'')))) = [Signed ''noise-libp2p-static-key:P''] \<and>
   fst (handleRemoteHandshakePayload test_env ''in'' ''R'' (test_st True ''QmB'')) = None \<and>
   bindings (since (test_st True ''QmB'')
      (snd (handleRemoteHandshakePayload test_env ''in'' ''R'' (test_st True ''QmB'')))) =
     [Verified ''noise-libp2p-static-key:R'']"
  using signed_and_verified_bytes [of test_env "\<lparr>Private = ''k'', Public = ''P''\<rparr>"
          "test_st True ''QmB''"
          "fst (generateHandshakePayload test_env \<lparr>Private = ''k'', Public = ''P''\<rparr>
                  (test_st True ''QmB''))"
          "snd (generateHandshakePayload test_env \<lparr>Private = ''k'', Public = ''P''\<rparr>
                  (test_st True ''QmB''))"
          "''in''" "''R''" None
          "snd (handleRemoteHandshakePayload test_env ''in'' ''R'' (test_st True ''QmB''))"
          None "snd (runHandshake test_env (test_st True ''QmB''))"]
  by (simp add: test_run_initiator since_def bindingSequence_def)
     (simp add: method_defs test_defs Let_def)

subsection \<open>C9: the failures of payload generation\<close>

text \<open>
  Claim C9 as stated fails twice. When serialization of the identity key fails with
  an error, \<open>generateHandshakePayload\<close> returns a different error, which wraps it
  behind a message; and it fails as well when key serialization and signing succeed
  and marshaling the record fails.
\<close>

theorem generateHandshakePayload_failures_counterexample:
  "Bytes bytes_fails_env (LocalPublicKey bytes_fails_env (sess (test_st True ''QmB''))) =
     Inl (External ''bad key'') \<and>
   fst (generateHandshakePayload bytes_fails_env test_keypair (test_st True ''QmB'')) =
     Inl (ErrorfW ''error serializing libp2p identity key: '' (External ''bad key'')) \<and>
   fst (generateHandshakePayload bytes_fails_env test_keypair (test_st True ''QmB'')) \<noteq>
     Inl (External ''bad key'') \<and>
   Bytes marshal_fails_env (LocalPublicKey marshal_fails_env (sess (test_st True ''QmB''))) =
     Inr ''pk1'' \<and>
   Sign marshal_fails_env (localKey (sess (test_st True ''QmB'')))
     (payloadSigPrefix @ Public test_keypair) = Inr ''sig:noise-libp2p-static-key:P'' \<and>
   fst (generateHandshakePayload marshal_fails_env test_keypair (test_st True ''QmB'')) =
     Inl (ErrorfW ''error marshaling handshake payload: '' (External ''too large''))"
  by (simp add: method_defs bytes_fails_env_def marshal_fails_env_def test_keypair_def
        test_defs Let_def)

text \<open>
  Claim C9, amended. \<open>generateHandshakePayload\<close> fails exactly when serialization of
  the local identity public key, signing, or marshaling of the record fails. The
  error it returns is a new error that wraps the underlying one behind a message
  naming the stage, so that \<open>Unwrap\<close> gives the underlying error back. In every other
  case it returns the marshaled record of identity public key and signature. It
  changes neither the session nor the world.
\<close>

theorem generateHandshakePayload_failures:
  assumes "generateHandshakePayload env localStatic st = (r, st')"
  shows "sess st' = sess st \<and> world st' = world st \<and>
    (case r of
       Inl err \<Rightarrow>
         (\<exists>e. Unwrap err = Some e \<and>
            ((Bytes env (LocalPublicKey env (sess st)) = Inl e \<and>
              err = ErrorfW ''error serializing libp2p identity key: '' e) \<or>
             (\<exists>raw. Bytes env (LocalPublicKey env (sess st)) = Inr raw \<and>
                Sign env (localKey (sess st)) (payloadSigPrefix @ Public localStatic) = Inl e \<and>
                err = ErrorfW ''error sigining handshake payload: '' e) \<or>
             (\<exists>raw sg. Bytes env (LocalPublicKey env (sess st)) = Inr raw \<and>
                Sign env (localKey (sess st)) (payloadSigPrefix @ Public localStatic) = Inr sg \<and>
                Marshal env \<lparr>IdentityKey = raw, IdentitySig = sg\<rparr> = Inl e \<and>
                err = ErrorfW ''error marshaling handshake payload: '' e)))
     | Inr payloadEnc \<Rightarrow>
         (\<exists>raw sg. Bytes env (LocalPublicKey env (sess st)) = Inr raw \<and>
            Sign env (localKey (sess st)) (payloadSigPrefix @ Public localStatic) = Inr sg \<and>
            Marshal env \<lparr>IdentityKey = raw, IdentitySig = sg\<rparr> = Inr payloadEnc))"
  using assms
  by (auto simp: method_defs Let_def split: prod.splits sum.splits option.splits if_splits)

theorem generateHandshakePayload_failures_witness:
  "fst (generateHandshakePayload test_env test_keypair (test_st True ''QmB'')) =
     Inr ''pk1|sig:noise-libp2p-static-key:P'' \<and>
   Marshal test_env \<lparr>IdentityKey = ''pk1'', IdentitySig = ''sig:noise-libp2p-static-key:P''\<rparr> =
     Inr ''pk1|sig:noise-libp2p-static-key:P'' \<and>
   fst (generateHandshakePayload marshal_fails_env test_keypair (test_st True ''QmB'')) =
     Inl (ErrorfW ''error marshaling handshake payload: '' (External ''too large'')) \<and>
   Unwrap (ErrorfW ''error marshaling handshake payload: '' (External ''too large'')) =
     Some (External ''too large'')"
  using generateHandshakePayload_failures [of test_env test_keypair "test_st True ''QmB''"
          "Inr ''pk1|sig:noise-libp2p-static-key:P''"
          "snd (generateHandshakePayload test_env test_keypair (test_st True ''QmB''))"]
        generateHandshakePayload_failures [of marshal_fails_env test_keypair
          "test_st True ''QmB''"
          "Inl (ErrorfW ''error marshaling handshake payload: '' (External ''too large''))"
          "snd (generateHandshakePayload marshal_fails_env test_keypair (test_st True ''QmB''))"]
  by (simp add: method_defs marshal_fails_env_def test_keypair_def test_defs Let_def)

subsection \<open>C2: the assignment of the cipher states\<close>

text \<open>
  Claim C2 as stated fails on the sending side. The engine has processed two
  messages; its third \<open>WriteMessage\<close> returns both cipher states, the transport then
  fails to write the frame, and \<open>sendHandshakeMessage\<close> returns the error without
  assigning \<open>enc\<close> and \<open>dec\<close>.
\<close>

theorem cipher_state_assignment_counterexample:
  "fst (WriteMessage write_fails_env ''p'' (world ((test_st True ''QmB'')\<lparr>world := 2\<rparr>))) =
     Inr (''mp'', Some (CipherState 1), Some (CipherState 2)) \<and>
   fst (sendHandshakeMessage write_fails_env ''p'' ((test_st True ''QmB'')\<lparr>world := 2\<rparr>)) =
     Some (External ''broken pipe'') \<and>
   enc (sess (snd (sendHandshakeMessage write_fails_env ''p''
                     ((test_st True ''QmB'')\<lparr>world := 2\<rparr>)))) = None \<and>
   dec (sess (snd (sendHandshakeMessage write_fails_env ''p''
                     ((test_st True ''QmB'')\<lparr>world := 2\<rparr>)))) = None"
  by (simp add: method_defs write_fails_env_def test_defs)

lemma send_since:
  "sendHandshakeMessage env p st = (r, st') \<Longrightarrow>
     \<exists>res rest. since st st' = EvWriteMessage p res # rest \<and>
       fst (WriteMessage env p (world st)) = res \<and>
       sess st' = (case yielded (EvWriteMessage p res) of
                     Some (a, b) \<Rightarrow> if r = None then setCipherStates (Some a) (Some b) (sess st)
                                   else sess st
                   | None \<Rightarrow> sess st)"
  by (auto simp: method_defs since_def split: prod.splits sum.splits option.splits if_splits)

lemma read_since:
  "readHandshakeMessage env st = (r, st') \<Longrightarrow>
     since st st' \<noteq> [] \<and>
     sess st' = (case yielded (last (since st st')) of
                   Some (a, b) \<Rightarrow> setCipherStates (Some a) (Some b) (sess st)
                 | None \<Rightarrow> sess st)"
  by (auto simp: method_defs since_def split: prod.splits sum.splits option.splits if_splits)

text \<open>
  Claim C2, amended. \<open>setCipherStates\<close> maps the ordered pair by role: an Initiator
  takes the first state for encryption and the second for decryption, a Responder
  the second for encryption and the first for decryption; no other field changes.
  \<open>readHandshakeMessage\<close> assigns exactly when the engine's \<open>ReadMessage\<close>, its last
  call, returned both states. \<open>sendHandshakeMessage\<close> assigns exactly when the
  engine's \<open>WriteMessage\<close>, its first call, returned both states and the frame was
  then written without error; otherwise the session is left as it was.
\<close>

theorem cipher_state_assignment:
  "setCipherStates cs1 cs2 s =
     s\<lparr>enc := (if initiator s then cs1 else cs2), dec := (if initiator s then cs2 else cs1)\<rparr> \<and>
   (sendHandshakeMessage env payload st = (r, st') \<longrightarrow>
      since st st' \<noteq> [] \<and>
      sess st' = (case yielded (hd (since st st')) of
                    Some (a, b) \<Rightarrow> if r = None then setCipherStates (Some a) (Some b) (sess st)
                                  else sess st
                  | None \<Rightarrow> sess st)) \<and>
   (readHandshakeMessage env sr = (r2, sr') \<longrightarrow>
      since sr sr' \<noteq> [] \<and>
      sess sr' = (case yielded (last (since sr sr')) of
                    Some (a, b) \<Rightarrow> setCipherStates (Some a) (Some b) (sess sr)
                  | None \<Rightarrow> sess sr))"
proof -
  have "setCipherStates cs1 cs2 s =
     s\<lparr>enc := (if initiator s then cs1 else cs2), dec := (if initiator s then cs2 else cs1)\<rparr>"
    by (simp add: setCipherStates_def)
  moreover have "since st st' \<noteq> [] \<and>
      sess st' = (case yielded (hd (since st st')) of
                    Some (a, b) \<Rightarrow> if r = None then setCipherStates (Some a) (Some b) (sess st)
                                  else sess st
                  | None \<Rightarrow> sess st)"
    if "sendHandshakeMessage env payload st = (r, st')"
    using send_since [OF that] by auto
  moreover have "since sr sr' \<noteq> [] \<and>
      sess sr' = (case yielded (last (since sr sr')) of
                    Some (a, b) \<Rightarrow> setCipherStates (Some a) (Some b) (sess sr)
                  | None \<Rightarrow> sess sr)"
    if "readHandshakeMessage env sr = (r2, sr')"
    using read_since [OF that] .
  ultimately show ?thesis by blast
qed

theorem cipher_state_assignment_witness:
  "fst (sendHandshakeMessage test_env ''p'' ((test_st True ''QmB'')\<lparr>world := 2\<rparr>)) = None \<and>
   yielded (hd (since ((test_st True ''QmB'')\<lparr>world := 2\<rparr>)
                  (snd (sendHandshakeMessage test_env ''p''
                          ((test_st True ''QmB'')\<lparr>world := 2\<rparr>))))) =
     Some (CipherState 1, CipherState 2) \<and>
   enc (sess (snd (sendHandshakeMessage test_env ''p''
                     ((test_st True ''QmB'')\<lparr>world := 2\<rparr>)))) = Some (CipherState 1) \<and>
   dec (sess (snd (sendHandshakeMessage test_env ''p''
                     ((test_st True ''QmB'')\<lparr>world := 2\<rparr>)))) = Some (CipherState 2) \<and>
   fst (readHandshakeMessage test_env ((test_st False [])\<lparr>world := 2\<rparr>)) = Inr ''in'' \<and>
   enc (sess (snd (readHandshakeMessage test_env ((test_st False [])\<lparr>world := 2\<rparr>)))) =
     Some (CipherState 2) \<and>
   dec (sess (snd (readHandshakeMessage test_env ((test_st False [])\<lparr>world := 2\<rparr>)))) =
     Some (CipherState 1)"
  using cipher_state_assignment [where env = test_env and payload = "''p''"
          and st = "(test_st True ''QmB'')\<lparr>world := 2\<rparr>" and r = None
          and st' = "snd (sendHandshakeMessage test_env ''p'' ((test_st True ''QmB'')\<lparr>world := 2\<rparr>))"
          and sr = "(test_st False [])\<lparr>world := 2\<rparr>" and ?r2.0 = "Inr ''in''"
          and sr' = "snd (readHandshakeMessage test_env ((test_st False [])\<lparr>world := 2\<rparr>))"
          and ?cs1.0 = "Some (CipherState 1)" and ?cs2.0 = "Some (CipherState 2)"
          and s = "test_session True ''QmB''"]
  by (simp add: method_defs setCipherStates_def test_defs since_def)

subsection \<open>Where the outcome fields are assigned\<close>

lemma yields_Nil [simp]: "yields [] = 0"
  by (simp add: yields_def)

lemma yields_Cons [simp]: "yields (e # t) = (if yielded e \<noteq> None then 1 else 0) + yields t"
  by (simp add: yields_def)

lemma yields_append [simp]: "yields (a @ b) = yields a + yields b"
  by (simp add: yields_def)

lemma verifications_Nil [simp]: "verifications [] = 0"
  by (simp add: verifications_def)

lemma verifications_Cons [simp]:
  "verifications (e # t) = (if verified_true e then 1 else 0) + verifications t"
  by (simp add: verifications_def)

lemma verifications_append [simp]: "verifications (a @ b) = verifications a + verifications b"
  by (simp add: verifications_def)

lemma progress_refl: "progress st st"
  by (simp add: progress_def)

lemma progress_trans: "progress a b \<Longrightarrow> progress b c \<Longrightarrow> progress a c"
  unfolding progress_def by (intro conjI impI; (elim conjE)?; linarith?; simp?)

lemma send_progress:
  "sendHandshakeMessage env p st = (r, st') \<Longrightarrow> progress st st'"
  by (auto simp: progress_def method_defs setCipherStates_def
           split: prod.splits sum.splits option.splits if_splits)

lemma read_progress:
  "readHandshakeMessage env st = (r, st') \<Longrightarrow> progress st st'"
  by (auto simp: progress_def method_defs setCipherStates_def
           split: prod.splits sum.splits option.splits if_splits)

lemma generate_progress:
  "generateHandshakePayload env kp st = (r, st') \<Longrightarrow> progress st st'"
  by (auto simp: progress_def method_defs Let_def
           split: prod.splits sum.splits option.splits if_splits)

lemma handle_progress:
  "handleRemoteHandshakePayload env p rs st = (r, st') \<Longrightarrow> progress st st'"
  by (auto simp: progress_def method_defs Let_def
           split: prod.splits sum.splits option.splits if_splits)

lemma peer_static_progress:
  "extern EvPeerStatic f st = (rs, st') \<Longrightarrow> progress st st'"
  by (auto simp: progress_def extern_def split: prod.splits)

lemma keygen_progress:
  "extern EvGenerateKeypair f st = (r, st') \<Longrightarrow> progress st st'"
  by (auto simp: progress_def extern_def split: prod.splits)

lemma new_state_progress:
  "extern (EvNewHandshakeState cfg) f st = (r, st') \<Longrightarrow> progress st st'"
  by (auto simp: progress_def extern_def split: prod.splits)

lemma initiator_progress:
  "initiatorStages env payload st = (r, st') \<Longrightarrow> progress st st'"
  apply (simp only: initiatorStages_def split: prod.splits option.splits sum.splits)
  apply (safe dest!: send_progress read_progress handle_progress peer_static_progress)
  apply ((assumption | (rule progress_trans, assumption))+)
  done

lemma responder_progress:
  "responderStages env payload st = (r, st') \<Longrightarrow> progress st st'"
  apply (simp only: responderStages_def split: prod.splits option.splits sum.splits)
  apply (safe dest!: send_progress read_progress handle_progress peer_static_progress)
  apply ((assumption | (rule progress_trans, assumption))+)
  done

lemma run_progress:
  "runHandshake env st = (r, st') \<Longrightarrow> progress st st'"
  apply (simp only: runHandshake_def Let_def split: prod.splits option.splits sum.splits if_splits)
  apply (safe dest!: keygen_progress new_state_progress generate_progress
                     initiator_progress responder_progress)
  apply ((assumption | (rule progress_trans, assumption))+)
  done

lemma send_remote:
  "sendHandshakeMessage env p st = (r, st') \<Longrightarrow>
     remoteID (sess st') = remoteID (sess st) \<and> remoteKey (sess st') = remoteKey (sess st) \<and>
     verifications (calls st') = verifications (calls st)"
  by (auto simp: method_defs setCipherStates_def
           split: prod.splits sum.splits option.splits if_splits)

lemma read_remote:
  "readHandshakeMessage env st = (r, st') \<Longrightarrow>
     remoteID (sess st') = remoteID (sess st) \<and> remoteKey (sess st') = remoteKey (sess st) \<and>
     verifications (calls st') = verifications (calls st)"
  by (auto simp: method_defs setCipherStates_def
           split: prod.splits sum.splits option.splits if_splits)

lemma generate_remote:
  "generateHandshakePayload env kp st = (r, st') \<Longrightarrow>
     sess st' = sess st \<and> verifications (calls st') = verifications (calls st)"
  by (auto simp: method_defs Let_def split: prod.splits sum.splits option.splits if_splits)

lemma peer_static_remote:
  "extern EvPeerStatic f st = (rs, st') \<Longrightarrow>
     sess st' = sess st \<and> verifications (calls st') = verifications (calls st)"
  by (auto simp: extern_def split: prod.splits)

lemma keygen_remote:
  "extern EvGenerateKeypair f st = (r, st') \<Longrightarrow>
     sess st' = sess st \<and> verifications (calls st') = verifications (calls st)"
  by (auto simp: extern_def split: prod.splits)

lemma new_state_remote:
  "extern (EvNewHandshakeState cfg) f st = (r, st') \<Longrightarrow>
     sess st' = sess st \<and> verifications (calls st') = verifications (calls st)"
  by (auto simp: extern_def split: prod.splits)

lemma handle_failure:
  "handleRemoteHandshakePayload env p rs st = (Some e, st') \<Longrightarrow>
     sess st' = sess st \<and> verifications (calls st') = verifications (calls st)"
  by (auto simp: method_defs Let_def split: prod.splits sum.splits option.splits if_splits)

lemma handle_success:
  "handleRemoteHandshakePayload env p rs st = (None, st') \<Longrightarrow> remoteKey (sess st') \<noteq> None"
  by (auto simp: method_defs Let_def split: prod.splits sum.splits option.splits if_splits)

lemma initiator_success:
  "initiatorStages env payload st = (None, st') \<Longrightarrow> remoteKey (sess st') \<noteq> None"
  apply (simp only: initiatorStages_def split: prod.splits option.splits sum.splits)
  apply (safe dest!: handle_success send_remote)
  apply simp_all?
  done

lemma responder_success:
  "responderStages env payload st = (None, st') \<Longrightarrow> remoteKey (sess st') \<noteq> None"
  apply (simp only: responderStages_def split: prod.splits option.splits sum.splits)
  apply (safe dest!: handle_success)
  apply simp_all?
  done

lemma responder_failure:
  "responderStages env payload st = (Some e, st') \<Longrightarrow>
     remoteID (sess st') = remoteID (sess st) \<and> remoteKey (sess st') = remoteKey (sess st) \<and>
     verifications (calls st') = verifications (calls st)"
  apply (simp only: responderStages_def split: prod.splits option.splits sum.splits)
  apply (safe dest!: send_remote read_remote peer_static_remote handle_failure)
  apply simp_all?
  done

lemma run_success:
  "runHandshake env st = (None, st') \<Longrightarrow> remoteKey (sess st') \<noteq> None"
  apply (simp only: runHandshake_def Let_def split: prod.splits option.splits sum.splits if_splits)
  apply (safe dest!: initiator_success responder_success)
  apply simp_all?
  done

lemma run_responder_failure:
  "runHandshake env st = (Some e, st') \<Longrightarrow> \<not> initiator (sess st) \<Longrightarrow>
     remoteID (sess st') = remoteID (sess st) \<and> remoteKey (sess st') = remoteKey (sess st) \<and>
     verifications (calls st') = verifications (calls st)"
  apply (simp only: runHandshake_def Let_def split: prod.splits option.splits sum.splits if_splits)
  apply (safe dest!: keygen_remote new_state_remote generate_remote responder_failure)
  apply simp_all?
  done

lemma since_counts:
  assumes "calls st' = calls st @ t"
  shows "yields (calls st') = yields (calls st) + yields (since st st')"
    and "verifications (calls st') = verifications (calls st) + verifications (since st st')"
  using assms by (simp_all add: since_append)

lemma send_engine:
  "sendHandshakeMessage env p st = (r, st') \<Longrightarrow>
     \<exists>ev. filter is_engine (calls st') = filter is_engine (calls st) @ [ev] \<and>
          (yielded ev = None \<or> r \<noteq> None \<longrightarrow>
             enc (sess st') = enc (sess st) \<and> dec (sess st') = dec (sess st))"
  by (auto simp: method_defs setCipherStates_def
           split: prod.splits sum.splits option.splits if_splits)

lemma read_engine:
  "readHandshakeMessage env st = (r, st') \<Longrightarrow>
     (isl r \<longrightarrow> enc (sess st') = enc (sess st) \<and> dec (sess st') = dec (sess st)) \<and>
     (\<not> isl r \<longrightarrow>
        (\<exists>ev. filter is_engine (calls st') = filter is_engine (calls st) @ [ev] \<and>
           (yielded ev = None \<longrightarrow>
              enc (sess st') = enc (sess st) \<and> dec (sess st') = dec (sess st))))"
  by (auto simp: method_defs setCipherStates_def
           split: prod.splits sum.splits option.splits if_splits)

lemma handle_engine:
  "handleRemoteHandshakePayload env p rs st = (r, st') \<Longrightarrow>
     filter is_engine (calls st') = filter is_engine (calls st) \<and>
     enc (sess st') = enc (sess st) \<and> dec (sess st') = dec (sess st)"
  by (auto simp: method_defs Let_def split: prod.splits sum.splits option.splits if_splits)

lemma generate_engine:
  "generateHandshakePayload env kp st = (r, st') \<Longrightarrow>
     filter is_engine (calls st') = filter is_engine (calls st) \<and> sess st' = sess st"
  by (auto simp: method_defs Let_def split: prod.splits sum.splits option.splits if_splits)

lemma initiator_engine:
  assumes run: "initiatorStages env payload st = (Some e, st')"
    and eng: "filter is_engine (calls st') = filter is_engine (calls st) @ evs"
    and early: "yields (take 2 evs) = 0"
  shows "enc (sess st') = enc (sess st) \<and> dec (sess st') = dec (sess st)"
proof -
  obtain r1 st1 where s1: "sendHandshakeMessage env [] st = (r1, st1)" by fastforce
  from send_engine [OF s1] obtain ev1 where
    e1: "filter is_engine (calls st1) = filter is_engine (calls st) @ [ev1]" and
    k1: "yielded ev1 = None \<or> r1 \<noteq> None \<longrightarrow>
           enc (sess st1) = enc (sess st) \<and> dec (sess st1) = dec (sess st)"
    by blast
  show ?thesis
  proof (cases r1)
    case (Some x)
    with run s1 have "st' = st1" by (simp add: initiatorStages_def)
    with k1 Some show ?thesis by simp
  next
    case None
    note r1 = this
    obtain r2 st2 where s2: "readHandshakeMessage env st1 = (r2, st2)" by fastforce
    from s2 obtain t2 where t2: "calls st2 = calls st1 @ t2" using read_grows by blast
    show ?thesis
    proof (cases r2)
      case (Inl x)
      with run s1 s2 r1 have st': "st' = st2" by (simp add: initiatorStages_def)
      with eng e1 t2 have "evs = ev1 # filter is_engine t2" by simp
      with early have "yielded ev1 = None" by (cases "yielded ev1") simp_all
      with k1 read_engine [OF s2] Inl st' show ?thesis by auto
    next
      case (Inr plaintext)
      note r2 = this
      with read_engine [OF s2] obtain ev2 where
        e2: "filter is_engine (calls st2) = filter is_engine (calls st1) @ [ev2]" and
        k2: "yielded ev2 = None \<longrightarrow>
               enc (sess st2) = enc (sess st1) \<and> dec (sess st2) = dec (sess st1)"
        by auto
      obtain rs st3 where
        s3: "extern EvPeerStatic (\<lambda>w. (PeerStatic env w, w)) st2 = (rs, st3)" by fastforce
      from extern_log [OF s3] have
        e3: "filter is_engine (calls st3) = filter is_engine (calls st2)" and
        k3: "sess st3 = sess st2" by simp_all
      obtain r4 st4 where s4: "handleRemoteHandshakePayload env plaintext rs st3 = (r4, st4)"
        by fastforce
      note h4 = handle_engine [OF s4]
      show ?thesis
      proof (cases r4)
        case (Some x)
        with run s1 s2 s3 s4 r1 r2 have st': "st' = st4" by (simp add: initiatorStages_def)
        with eng e1 e2 e3 h4 have "evs = [ev1, ev2]" by simp
        with early have "yielded ev1 = None" "yielded ev2 = None"
          by (cases "yielded ev1"; cases "yielded ev2"; simp)+
        with k1 k2 k3 h4 st' show ?thesis by simp
      next
        case None
        obtain r5 st5 where s5: "sendHandshakeMessage env payload st4 = (r5, st5)" by fastforce
        with run s1 s2 s3 s4 r1 r2 None have st': "st' = st5" and r5: "r5 \<noteq> None"
          by (auto simp: initiatorStages_def split: option.splits)
        from send_engine [OF s5] r5 obtain ev3 where
          e5: "filter is_engine (calls st5) = filter is_engine (calls st4) @ [ev3]" and
          k5: "enc (sess st5) = enc (sess st4) \<and> dec (sess st5) = dec (sess st4)"
          by blast
        from eng e1 e2 e3 h4 e5 st' have "evs = [ev1, ev2, ev3]" by simp
        with early have "yielded ev1 = None" "yielded ev2 = None"
          by (cases "yielded ev1"; cases "yielded ev2"; simp)+
        with k1 k2 k3 h4 k5 st' show ?thesis by simp
      qed
    qed
  qed
qed

lemma run_initiator_engine:
  assumes run: "runHandshake env st = (Some e, st')" and ini: "initiator (sess st)"
    and early: "yields (take 2 (filter is_engine (since st st'))) = 0"
  shows "enc (sess st') = enc (sess st) \<and> dec (sess st') = dec (sess st)"
proof -
  from run_grows [OF run] obtain t where t: "calls st' = calls st @ t" by blast
  then have s: "since st st' = t" by (rule since_append)
  obtain r1 st1 where s1: "extern EvGenerateKeypair (GenerateKeypair env) st = (r1, st1)"
    by fastforce
  note l1 = extern_log [OF s1]
  show ?thesis
  proof (cases r1)
    case (Inl x)
    with run s1 have "st' = st1" by (simp add: runHandshake_def)
    with l1 show ?thesis by simp
  next
    case (Inr kp)
    define cfg where "cfg = \<lparr>CipherSuite = cipherSuite, Pattern = HandshakeXX,
                      Initiator = initiator (sess st1), StaticKeypair = kp\<rparr>"
    obtain r2 st2 where
      s2: "extern (EvNewHandshakeState cfg) (NewHandshakeState env cfg) st1 = (r2, st2)"
      by fastforce
    note l2 = extern_log [OF s2]
    show ?thesis
    proof (cases r2)
      case (Some x)
      with run s1 s2 Inr have "st' = st2" by (simp add: runHandshake_def cfg_def)
      with l1 l2 show ?thesis by simp
    next
      case None
      obtain r3 st3 where s3: "generateHandshakePayload env kp st2 = (r3, st3)" by fastforce
      note g3 = generate_engine [OF s3]
      have c3: "filter is_engine (calls st3) = filter is_engine (calls st)" "sess st3 = sess st"
        using l1 l2 g3 Inr by simp_all
      show ?thesis
      proof (cases r3)
        case (Inl x)
        with run s1 s2 s3 Inr None have "st' = st3" by (simp add: runHandshake_def cfg_def)
        with c3 show ?thesis by simp
      next
        case (Inr payload)
        with run ini s1 s2 s3 \<open>r1 = Inr kp\<close> None c3
        have stages: "initiatorStages env payload st3 = (Some e, st')"
          by (simp add: runHandshake_def cfg_def)
        from t c3 have "filter is_engine (calls st') = filter is_engine (calls st3) @ filter is_engine t"
          by simp
        from initiator_engine [OF stages this] early s c3 show ?thesis by simp
      qed
    qed
  qed
qed

subsection \<open>C6: outcome fields when the run fails\<close>

text \<open>
  Claim C6 as stated fails. A Responder whose message 3 is accepted by the engine and
  whose payload then fails signature verification returns the error with \<open>enc\<close> and
  \<open>dec\<close> assigned; an Initiator that has verified message 2 and then cannot write
  message 3 returns the error with \<open>remoteKey\<close> assigned.
\<close>

theorem runHandshake_outcome_counterexample:
  "fst (runHandshake bad_signature_env (test_st False [])) =
     Some (Errorf ''handshake signature invalid'') \<and>
   enc (sess (snd (runHandshake bad_signature_env (test_st False [])))) =
     Some (CipherState 2) \<and>
   dec (sess (snd (runHandshake bad_signature_env (test_st False [])))) =
     Some (CipherState 1) \<and>
   fst (runHandshake late_write_fails_env (test_st True ''QmB'')) =
     Some (ErrorfW ''error sending handshake message: '' (External ''broken pipe'')) \<and>
   remoteKey (sess (snd (runHandshake late_write_fails_env (test_st True ''QmB'')))) =
     Some (PubKey 2)"
  by (simp add: test_run_bad_signature test_run_late_write_fails)

text \<open>
  Claim C6, amended. \<open>runHandshake\<close> assigns the outcome fields as it goes and does
  not take them back when a later step fails. In every run, \<open>enc\<close> and \<open>dec\<close> are as
  at entry if no engine call of the run returned both cipher states, and \<open>remoteID\<close>
  and \<open>remoteKey\<close> are as at entry if no signature verification of the run answered
  true. When a Responder's run returns an error, \<open>remoteID\<close> and \<open>remoteKey\<close> are as
  at entry. When an Initiator's run returns an error and neither of the first two
  engine calls of the run returned both cipher states, \<open>enc\<close> and \<open>dec\<close> are as at
  entry. When a run returns no error, \<open>remoteKey\<close> is populated. Role and local key
  never change.
\<close>

theorem runHandshake_outcome:
  assumes "runHandshake env st = (r, st')"
  shows "(yields (since st st') = 0 \<longrightarrow>
            enc (sess st') = enc (sess st) \<and> dec (sess st') = dec (sess st)) \<and>
         (verifications (since st st') = 0 \<longrightarrow>
            remoteID (sess st') = remoteID (sess st) \<and>
            remoteKey (sess st') = remoteKey (sess st)) \<and>
         (r \<noteq> None \<and> \<not> initiator (sess st) \<longrightarrow>
            remoteID (sess st') = remoteID (sess st) \<and>
            remoteKey (sess st') = remoteKey (sess st)) \<and>
         (r \<noteq> None \<and> initiator (sess st) \<and>
          yields (take 2 (filter is_engine (since st st'))) = 0 \<longrightarrow>
            enc (sess st') = enc (sess st) \<and> dec (sess st') = dec (sess st)) \<and>
         (r = None \<longrightarrow> remoteKey (sess st') \<noteq> None) \<and>
         initiator (sess st') = initiator (sess st) \<and> localKey (sess st') = localKey (sess st)"
proof -
  from run_grows [OF assms] obtain t where t: "calls st' = calls st @ t" by blast
  note c = since_counts [OF t]
  have p: "progress st st'" using assms by (rule run_progress)
  have a: "yields (since st st') = 0 \<longrightarrow>
            enc (sess st') = enc (sess st) \<and> dec (sess st') = dec (sess st)"
    using p c(1) by (simp add: progress_def)
  have b: "verifications (since st st') = 0 \<longrightarrow>
            remoteID (sess st') = remoteID (sess st) \<and>
            remoteKey (sess st') = remoteKey (sess st)"
    using p c(2) by (simp add: progress_def)
  have f: "r \<noteq> None \<and> \<not> initiator (sess st) \<longrightarrow>
            remoteID (sess st') = remoteID (sess st) \<and>
            remoteKey (sess st') = remoteKey (sess st)"
    using assms run_responder_failure by blast
  have g: "r \<noteq> None \<and> initiator (sess st) \<and>
          yields (take 2 (filter is_engine (since st st'))) = 0 \<longrightarrow>
            enc (sess st') = enc (sess st) \<and> dec (sess st') = dec (sess st)"
    using assms run_initiator_engine by blast
  have s: "r = None \<longrightarrow> remoteKey (sess st') \<noteq> None"
    using assms run_success by blast
  have k: "initiator (sess st') = initiator (sess st) \<and> localKey (sess st') = localKey (sess st)"
    using p by (simp add: progress_def)
  from a b f g s k show ?thesis by blast
qed

theorem runHandshake_outcome_witness:
  "fst (runHandshake bad_signature_env (test_st False [])) \<noteq> None \<and>
   \<not> initiator (sess (test_st False [])) \<and>
   verifications (since (test_st False [])
                    (snd (runHandshake bad_signature_env (test_st False [])))) = 0 \<and>
   remoteKey (sess (snd (runHandshake bad_signature_env (test_st False [])))) = None \<and>
   yields (since (test_st True ''QmA'') (snd (runHandshake test_env (test_st True ''QmA'')))) = 0 \<and>
   enc (sess (snd (runHandshake test_env (test_st True ''QmA'')))) = None \<and>
   fst (runHandshake test_env (test_st True ''QmB'')) = None \<and>
   remoteKey (sess (snd (runHandshake test_env (test_st True ''QmB'')))) = Some (PubKey 2) \<and>
   fst (runHandshake late_write_fails_env (test_st True ''QmB'')) \<noteq> None \<and>
   initiator (sess (test_st True ''QmB'')) \<and>
   yields (take 2 (filter is_engine (since (test_st True ''QmB'')
      (snd (runHandshake late_write_fails_env (test_st True ''QmB'')))))) = 0 \<and>
   enc (sess (snd (runHandshake late_write_fails_env (test_st True ''QmB'')))) = None \<and>
   dec (sess (snd (runHandshake late_write_fails_env (test_st True ''QmB'')))) = None"
  using runHandshake_outcome [OF test_run_bad_signature]
        runHandshake_outcome [OF test_run_mismatch]
        runHandshake_outcome [OF test_run_initiator]
        runHandshake_outcome [OF test_run_late_write_fails]
  by (simp add: test_run_bad_signature test_run_mismatch test_run_initiator
        test_run_late_write_fails since_def test_st_simps)

subsection \<open>C5: when payload verification succeeds\<close>

text \<open>
  Claim C5 as stated fails. The session has no option for the expected identifier:
  an Initiator with no expectation has the empty \<open>remoteID\<close>. The remote payload
  decodes, its key unmarshals and its signature verifies, and the run returns the
  identity-mismatch error.
\<close>

theorem no_expectation_counterexample:
  "initiator (sess (test_st True [])) \<and> remoteID (sess (test_st True [])) = [] \<and>
   Unmarshal test_env ''in'' =
     Inr \<lparr>IdentityKey = ''pk2'', IdentitySig = ''sig:noise-libp2p-static-key:R''\<rparr> \<and>
   UnmarshalPublicKey test_env ''pk2'' = Inr (PubKey 2) \<and>
   Verify test_env (PubKey 2) (payloadSigPrefix @ ''R'') ''sig:noise-libp2p-static-key:R'' =
     Inr True \<and>
   fst (handleRemoteHandshakePayload test_env ''in'' ''R'' (test_st True [])) =
     Some (Errorf ''peer id mismatch: expected , but remote key matches QmB'') \<and>
   fst (runHandshake test_env (test_st True [])) =
     Some (Errorf ''peer id mismatch: expected , but remote key matches QmB'')"
  by (simp add: test_run_no_expectation test_st_simps) (simp add: method_defs test_defs)

text \<open>
  Claim C5, amended. Only a Responder is never refused for its identity: an Initiator
  always compares the derived identifier with its \<open>remoteID\<close>, the empty one
  included. Whenever the remote payload decodes, the embedded key unmarshals, the
  peer identifier is derived, the session is a Responder or its \<open>remoteID\<close> equals
  the derived identifier, and the signature verifies as true,
  \<open>handleRemoteHandshakePayload\<close> returns no error and records the identifier and the
  key. In a Responder's run, a signature verification that answers true means that
  the run returns no error.
\<close>

theorem verification_succeeds:
  "(Unmarshal env payload = Inr nhp \<and> UnmarshalPublicKey env (IdentityKey nhp) = Inr pk \<and>
    IDFromPublicKey env pk = Inr pid \<and>
    Verify env pk (payloadSigPrefix @ remoteStatic) (IdentitySig nhp) = Inr True \<and>
    (initiator (sess st) \<longrightarrow> remoteID (sess st) = pid) \<longrightarrow>
      fst (handleRemoteHandshakePayload env payload remoteStatic st) = None \<and>
      sess (snd (handleRemoteHandshakePayload env payload remoteStatic st)) =
        (sess st)\<lparr>remoteID := pid, remoteKey := Some pk\<rparr>) \<and>
   (runHandshake env st0 = (r, st') \<and> \<not> initiator (sess st0) \<and>
    0 < verifications (since st0 st') \<longrightarrow> r = None)"
proof -
  have direct: "fst (handleRemoteHandshakePayload env payload remoteStatic st) = None \<and>
      sess (snd (handleRemoteHandshakePayload env payload remoteStatic st)) =
        (sess st)\<lparr>remoteID := pid, remoteKey := Some pk\<rparr>"
    if "Unmarshal env payload = Inr nhp \<and> UnmarshalPublicKey env (IdentityKey nhp) = Inr pk \<and>
        IDFromPublicKey env pk = Inr pid \<and>
        Verify env pk (payloadSigPrefix @ remoteStatic) (IdentitySig nhp) = Inr True \<and>
        (initiator (sess st) \<longrightarrow> remoteID (sess st) = pid)"
    using that by (auto simp: method_defs)
  have whole: "r = None"
    if a: "runHandshake env st0 = (r, st') \<and> \<not> initiator (sess st0) \<and>
           0 < verifications (since st0 st')"
  proof (rule ccontr)
    assume "r \<noteq> None"
    then obtain e where "r = Some e" by blast
    with a have "verifications (calls st') = verifications (calls st0)"
      using run_responder_failure by blast
    moreover from a run_grows obtain t where "calls st' = calls st0 @ t" by blast
    ultimately have "verifications (since st0 st') = 0"
      using since_counts(2) by fastforce
    with a show False by simp
  qed
  from direct whole show ?thesis by blast
qed

theorem verification_succeeds_witness:
  "\<not> initiator (sess (test_st False [])) \<and>
   Unmarshal test_env ''in'' =
     Inr \<lparr>IdentityKey = ''pk2'', IdentitySig = ''sig:noise-libp2p-static-key:R''\<rparr> \<and>
   UnmarshalPublicKey test_env ''pk2'' = Inr (PubKey 2) \<and>
   IDFromPublicKey test_env (PubKey 2) = Inr ''QmB'' \<and>
   Verify test_env (PubKey 2) (payloadSigPrefix @ ''R'') ''sig:noise-libp2p-static-key:R'' =
     Inr True \<and>
   fst (handleRemoteHandshakePayload test_env ''in'' ''R'' (test_st False [])) = None \<and>
   0 < verifications (since (test_st False [])
                        (snd (runHandshake test_env (test_st False [])))) \<and>
   fst (runHandshake test_env (test_st False [])) = None"
  using verification_succeeds [of test_env "''in''"
          "\<lparr>IdentityKey = ''pk2'', IdentitySig = ''sig:noise-libp2p-static-key:R''\<rparr>"
          "PubKey 2" "''QmB''" "''R''" "test_st False []" "test_st False []"
          "fst (runHandshake test_env (test_st False []))"
          "snd (runHandshake test_env (test_st False []))"]
  by (simp add: test_run_responder since_def test_st_simps)
     (simp add: method_defs test_defs)

subsection \<open>C7: running again\<close>

lemma obliviousD:
  assumes "oblivious R f" and "R a b" and "f a = (ra, a1)" and "f b = (rb, b1)"
  shows "ra = rb \<and> R a1 b1"
proof -
  from assms(1,2) have "fst (f a) = fst (f b) \<and> R (snd (f a)) (snd (f b))"
    unfolding oblivious_def by blast
  with assms(3,4) show ?thesis by simp
qed

lemma oblivious_return: "oblivious R (\<lambda>s. (c, s))"
  by (simp add: oblivious_def)

lemma oblivious_option:
  assumes "oblivious R f" and "\<And>e. oblivious R (k1 e)" and "oblivious R k2"
  shows "oblivious R (\<lambda>s. case f s of (Some e, s1) \<Rightarrow> k1 e s1 | (None, s1) \<Rightarrow> k2 s1)"
  unfolding oblivious_def
proof (intro allI impI)
  fix a b :: "'a st"
  assume ab: "R a b"
  obtain ra a1 where fa: "f a = (ra, a1)" by fastforce
  obtain rb b1 where fb: "f b = (rb, b1)" by fastforce
  from obliviousD [OF assms(1) ab fa fb] have r: "ra = rb" and a1: "R a1 b1"
    by simp_all
  show "fst (case f a of (Some e, s1) \<Rightarrow> k1 e s1 | (None, s1) \<Rightarrow> k2 s1) =
        fst (case f b of (Some e, s1) \<Rightarrow> k1 e s1 | (None, s1) \<Rightarrow> k2 s1) \<and>
        R (snd (case f a of (Some e, s1) \<Rightarrow> k1 e s1 | (None, s1) \<Rightarrow> k2 s1))
          (snd (case f b of (Some e, s1) \<Rightarrow> k1 e s1 | (None, s1) \<Rightarrow> k2 s1))"
  proof (cases ra)
    case None
    with assms(3) a1 fa fb r show ?thesis by (auto simp: oblivious_def)
  next
    case (Some e)
    with assms(2) [of e] a1 fa fb r show ?thesis by (auto simp: oblivious_def)
  qed
qed

lemma oblivious_sum:
  assumes "oblivious R f" and "\<And>e. oblivious R (k1 e)" and "\<And>v. oblivious R (k2 v)"
  shows "oblivious R (\<lambda>s. case f s of (Inl e, s1) \<Rightarrow> k1 e s1 | (Inr v, s1) \<Rightarrow> k2 v s1)"
  unfolding oblivious_def
proof (intro allI impI)
  fix a b :: "'a st"
  assume ab: "R a b"
  obtain ra a1 where fa: "f a = (ra, a1)" by fastforce
  obtain rb b1 where fb: "f b = (rb, b1)" by fastforce
  from obliviousD [OF assms(1) ab fa fb] have r: "ra = rb" and a1: "R a1 b1"
    by simp_all
  show "fst (case f a of (Inl e, s1) \<Rightarrow> k1 e s1 | (Inr v, s1) \<Rightarrow> k2 v s1) =
        fst (case f b of (Inl e, s1) \<Rightarrow> k1 e s1 | (Inr v, s1) \<Rightarrow> k2 v s1) \<and>
        R (snd (case f a of (Inl e, s1) \<Rightarrow> k1 e s1 | (Inr v, s1) \<Rightarrow> k2 v s1))
          (snd (case f b of (Inl e, s1) \<Rightarrow> k1 e s1 | (Inr v, s1) \<Rightarrow> k2 v s1))"
  proof (cases ra)
    case (Inl e)
    with assms(2) [of e] a1 fa fb r show ?thesis by (auto simp: oblivious_def)
  next
    case (Inr v)
    with assms(3) [of v] a1 fa fb r show ?thesis by (auto simp: oblivious_def)
  qed
qed

lemma oblivious_prod:
  assumes "oblivious R f" and "\<And>v. oblivious R (k v)"
  shows "oblivious R (\<lambda>s. case f s of (v, s1) \<Rightarrow> k v s1)"
  unfolding oblivious_def
proof (intro allI impI)
  fix a b :: "'a st"
  assume ab: "R a b"
  obtain ra a1 where fa: "f a = (ra, a1)" by fastforce
  obtain rb b1 where fb: "f b = (rb, b1)" by fastforce
  from obliviousD [OF assms(1) ab fa fb] have r: "ra = rb" and a1: "R a1 b1"
    by simp_all
  with assms(2) [of ra] fa fb
  show "fst (case f a of (v, s1) \<Rightarrow> k v s1) = fst (case f b of (v, s1) \<Rightarrow> k v s1) \<and>
        R (snd (case f a of (v, s1) \<Rightarrow> k v s1)) (snd (case f b of (v, s1) \<Rightarrow> k v s1))"
    by (auto simp: oblivious_def)
qed

lemma oblivious_role:
  assumes "oblivious R f" and "oblivious R g"
    and role: "\<And>a b. R a b \<Longrightarrow> initiator (sess a) = initiator (sess b)"
  shows "oblivious R (\<lambda>s. if initiator (sess s) then f s else g s)"
  unfolding oblivious_def
proof (intro allI impI)
  fix a b :: "'a st"
  assume ab: "R a b"
  then have i: "initiator (sess a) = initiator (sess b)" by (rule role)
  from assms(1,2) ab have "fst (f a) = fst (f b) \<and> R (snd (f a)) (snd (f b))"
    and "fst (g a) = fst (g b) \<and> R (snd (g a)) (snd (g b))"
    unfolding oblivious_def by blast+
  with i
  show "fst (if initiator (sess a) then f a else g a) =
        fst (if initiator (sess b) then f b else g b) \<and>
        R (snd (if initiator (sess a) then f a else g a))
          (snd (if initiator (sess b) then f b else g b))"
    by simp
qed

lemma alike_role: "alike a b \<Longrightarrow> initiator (sess a) = initiator (sess b)"
  by (simp add: alike_def)

lemma unlogged_role: "unlogged a b \<Longrightarrow> initiator (sess a) = initiator (sess b)"
  by (simp add: unlogged_def)

lemma oblivious_extern:
  "oblivious alike (extern ev f)" "oblivious unlogged (extern ev f)"
  by (auto simp: oblivious_def alike_def unlogged_def extern_def split: prod.splits)

lemma oblivious_new_state:
  "oblivious alike (\<lambda>s. extern (EvNewHandshakeState (cfg (initiator (sess s))))
                           (NewHandshakeState env (cfg (initiator (sess s)))) s)"
  "oblivious unlogged (\<lambda>s. extern (EvNewHandshakeState (cfg (initiator (sess s))))
                              (NewHandshakeState env (cfg (initiator (sess s)))) s)"
  by (auto simp: oblivious_def alike_def unlogged_def extern_def split: prod.splits)

lemma oblivious_send_alike: "oblivious alike (sendHandshakeMessage env p)"
  by (auto simp: oblivious_def alike_def method_defs setCipherStates_def
           split: prod.splits sum.splits option.splits)

lemma oblivious_send_unlogged: "oblivious unlogged (sendHandshakeMessage env p)"
  by (auto simp: oblivious_def unlogged_def method_defs setCipherStates_def
           split: prod.splits sum.splits option.splits)

lemmas oblivious_send = oblivious_send_alike oblivious_send_unlogged

lemma oblivious_read_alike: "oblivious alike (readHandshakeMessage env)"
  by (auto simp: oblivious_def alike_def method_defs setCipherStates_def
           split: prod.splits sum.splits option.splits)

lemma oblivious_read_unlogged: "oblivious unlogged (readHandshakeMessage env)"
  by (auto simp: oblivious_def unlogged_def method_defs setCipherStates_def
           split: prod.splits sum.splits option.splits)

lemmas oblivious_read = oblivious_read_alike oblivious_read_unlogged

lemma oblivious_generate_alike: "oblivious alike (generateHandshakePayload env kp)"
  by (auto simp: oblivious_def alike_def method_defs Let_def
           split: prod.splits sum.splits option.splits)

lemma oblivious_generate_unlogged: "oblivious unlogged (generateHandshakePayload env kp)"
  by (auto simp: oblivious_def unlogged_def method_defs Let_def
           split: prod.splits sum.splits option.splits)

lemmas oblivious_generate = oblivious_generate_alike oblivious_generate_unlogged

lemma oblivious_handle_alike: "oblivious alike (handleRemoteHandshakePayload env p rs)"
  by (auto simp: oblivious_def alike_def method_defs Let_def
           split: prod.splits sum.splits option.splits)

lemma oblivious_handle_unlogged: "oblivious unlogged (handleRemoteHandshakePayload env p rs)"
  by (auto simp: oblivious_def unlogged_def method_defs Let_def
           split: prod.splits sum.splits option.splits)

lemmas oblivious_handle = oblivious_handle_alike oblivious_handle_unlogged

lemma oblivious_initiator:
  "oblivious alike (initiatorStages env payload)"
  "oblivious unlogged (initiatorStages env payload)"
proof -
  have "initiatorStages env payload =
     (\<lambda>st. case sendHandshakeMessage env [] st of
        (Some err, st1) \<Rightarrow> (Some (ErrorfW ''error sending handshake message: '' err), st1)
      | (None, st1) \<Rightarrow>
          (case readHandshakeMessage env st1 of
             (Inl err, st2) \<Rightarrow> (Some (ErrorfW ''error reading handshake message: '' err), st2)
           | (Inr plaintext, st2) \<Rightarrow>
               (case extern EvPeerStatic (\<lambda>w. (PeerStatic env w, w)) st2 of
                  (remoteStatic, st3) \<Rightarrow>
                    (case handleRemoteHandshakePayload env plaintext remoteStatic st3 of
                       (Some err, st4) \<Rightarrow> (Some err, st4)
                     | (None, st4) \<Rightarrow>
                         (case sendHandshakeMessage env payload st4 of
                            (Some err, st5) \<Rightarrow>
                              (Some (ErrorfW ''error sending handshake message: '' err), st5)
                          | (None, st5) \<Rightarrow> (None, st5))))))"
    by (rule ext) (simp add: initiatorStages_def)
  then show "oblivious alike (initiatorStages env payload)"
    and "oblivious unlogged (initiatorStages env payload)"
    by (simp_all only:)
       (intro oblivious_option oblivious_sum oblivious_prod oblivious_return oblivious_send
          oblivious_read oblivious_handle oblivious_extern)+
qed

lemma oblivious_responder:
  "oblivious alike (responderStages env payload)"
  "oblivious unlogged (responderStages env payload)"
proof -
  have "responderStages env payload =
     (\<lambda>st. case readHandshakeMessage env st of
        (Inl err, st1) \<Rightarrow> (Some (ErrorfW ''error reading handshake message: '' err), st1)
      | (Inr plaintext0, st1) \<Rightarrow>
          (case sendHandshakeMessage env payload st1 of
             (Some err, st2) \<Rightarrow> (Some (ErrorfW ''error sending handshake message: '' err), st2)
           | (None, st2) \<Rightarrow>
               (case readHandshakeMessage env st2 of
                  (Inl err, st3) \<Rightarrow>
                    (Some (ErrorfW ''error reading handshake message: '' err), st3)
                | (Inr plaintext, st3) \<Rightarrow>
                    (case extern EvPeerStatic (\<lambda>w. (PeerStatic env w, w)) st3 of
                       (remoteStatic, st4) \<Rightarrow>
                         (case handleRemoteHandshakePayload env plaintext remoteStatic st4 of
                            (Some err, st5) \<Rightarrow> (Some err, st5)
                          | (None, st5) \<Rightarrow> (None, st5))))))"
    by (rule ext) (simp add: responderStages_def)
  then show "oblivious alike (responderStages env payload)"
    and "oblivious unlogged (responderStages env payload)"
    by (simp_all only:)
       (intro oblivious_option oblivious_sum oblivious_prod oblivious_return oblivious_send
          oblivious_read oblivious_handle oblivious_extern)+
qed

lemma oblivious_run:
  "oblivious alike (runHandshake env)"
  "oblivious unlogged (runHandshake env)"
proof -
  have eq: "runHandshake env =
     (\<lambda>st. case extern EvGenerateKeypair (GenerateKeypair env) st of
        (Inl err, st1) \<Rightarrow> (Some (ErrorfW ''error generating static keypair: '' err), st1)
      | (Inr kp, st1) \<Rightarrow>
          (case extern (EvNewHandshakeState \<lparr>CipherSuite = cipherSuite, Pattern = HandshakeXX,
                      Initiator = initiator (sess st1), StaticKeypair = kp\<rparr>)
                  (NewHandshakeState env \<lparr>CipherSuite = cipherSuite, Pattern = HandshakeXX,
                      Initiator = initiator (sess st1), StaticKeypair = kp\<rparr>) st1 of
             (Some err, st2) \<Rightarrow>
               (Some (ErrorfW ''error initializing handshake state: '' err), st2)
           | (None, st2) \<Rightarrow>
               (case generateHandshakePayload env kp st2 of
                  (Inl err, st3) \<Rightarrow> (Some err, st3)
                | (Inr payload, st3) \<Rightarrow>
                    if initiator (sess st3) then initiatorStages env payload st3
                    else responderStages env payload st3)))"
    by (rule ext) (unfold runHandshake_def Let_def, rule refl)
  note new_state = oblivious_new_state [of "\<lambda>i. \<lparr>CipherSuite = cipherSuite,
      Pattern = HandshakeXX, Initiator = i, StaticKeypair = kp\<rparr>" env for kp]
  show "oblivious alike (runHandshake env)"
    by (simp only: eq)
       (intro oblivious_option oblivious_sum oblivious_role oblivious_return
          oblivious_generate oblivious_extern oblivious_initiator oblivious_responder
          new_state alike_role)
  show "oblivious unlogged (runHandshake env)"
    by (simp only: eq)
       (intro oblivious_option oblivious_sum oblivious_role oblivious_return
          oblivious_generate oblivious_extern oblivious_initiator oblivious_responder
          new_state unlogged_role)
qed

text \<open>The log is not read: a run does the same whatever the log holds at its start.\<close>

lemma log_not_read:
  assumes "sess a = sess b" and "world a = world b"
  shows "fst (runHandshake env a) = fst (runHandshake env b) \<and>
         sess (snd (runHandshake env a)) = sess (snd (runHandshake env b)) \<and>
         world (snd (runHandshake env a)) = world (snd (runHandshake env b))"
proof -
  from assms have "unlogged a b" by (simp add: unlogged_def)
  with oblivious_run(2) [of env]
  have "fst (runHandshake env a) = fst (runHandshake env b) \<and>
        unlogged (snd (runHandshake env a)) (snd (runHandshake env b))"
    unfolding oblivious_def by blast
  then show ?thesis by (simp add: unlogged_def secureSession.equality)
qed

text \<open>
  Claim C7 as stated fails. A second call of \<open>setCipherStates\<close> replaces the cipher
  states of the first, and \<open>runHandshake\<close> on the state left by a successful run
  returns no error again, after the same message steps.
\<close>

theorem reinvocation_counterexample:
  "setCipherStates (Some (CipherState 3)) (Some (CipherState 4))
     (setCipherStates (Some (CipherState 1)) (Some (CipherState 2)) (test_session True ''QmB'')) =
     (test_session True ''QmB'')\<lparr>enc := Some (CipherState 3), dec := Some (CipherState 4)\<rparr> \<and>
   fst (runHandshake test_env (test_st True ''QmB'')) = None \<and>
   fst (runHandshake test_env (snd (runHandshake test_env (test_st True ''QmB'')))) = None \<and>
   steps (since (snd (runHandshake test_env (test_st True ''QmB'')))
            (snd (runHandshake test_env (snd (runHandshake test_env (test_st True ''QmB'')))))) =
     initiatorSequence ''pk1|sig:noise-libp2p-static-key:P'' ''in'' ''R''"
  by (simp add: test_run_initiator setCipherStates_def test_session_def)
     (simp add: run_defs test_env_def yield_def cipherSuite_def payloadSigPrefix_def Let_def
        since_def steps_def initiatorSequence_def)

text \<open>
  Claim C7, amended. Nothing fails on re-invocation. \<open>setCipherStates\<close> has no error
  result and does not look at the current cipher states: a second assignment
  replaces the first. \<open>runHandshake\<close> does not look at \<open>enc\<close>, \<open>dec\<close> and
  \<open>remoteKey\<close>, nor at the \<open>remoteID\<close> of a Responder: on a session that already
  completed it returns the same result, makes the same calls and leaves the world in
  the same state as on the session with those fields cleared, so it generates a new
  keypair and repeats the exchange.
\<close>

theorem reinvocation_repeats:
  "setCipherStates c d (setCipherStates a b s) = setCipherStates c d s \<and>
   (alike st2 st \<longrightarrow>
      fst (runHandshake env st2) = fst (runHandshake env st) \<and>
      world (snd (runHandshake env st2)) = world (snd (runHandshake env st)) \<and>
      calls (snd (runHandshake env st2)) = calls (snd (runHandshake env st))) \<and>
   alike (st\<lparr>sess := (sess st)\<lparr>enc := e, dec := d', remoteKey := k\<rparr>\<rparr>) st \<and>
   (\<not> initiator (sess st) \<longrightarrow>
      alike (st\<lparr>sess := (sess st)\<lparr>remoteID := rid, remoteKey := k, enc := e, dec := d'\<rparr>\<rparr>) st)"
proof -
  have "setCipherStates c d (setCipherStates a b s) = setCipherStates c d s"
    by (simp add: setCipherStates_def)
  moreover have "fst (runHandshake env st2) = fst (runHandshake env st) \<and>
      world (snd (runHandshake env st2)) = world (snd (runHandshake env st)) \<and>
      calls (snd (runHandshake env st2)) = calls (snd (runHandshake env st))"
    if "alike st2 st"
  proof -
    from oblivious_run(1) [of env] that
    have "fst (runHandshake env st2) = fst (runHandshake env st) \<and>
          alike (snd (runHandshake env st2)) (snd (runHandshake env st))"
      unfolding oblivious_def by blast
    then show ?thesis by (simp add: alike_def)
  qed
  moreover have "alike (st\<lparr>sess := (sess st)\<lparr>enc := e, dec := d', remoteKey := k\<rparr>\<rparr>) st"
    by (simp add: alike_def)
  moreover have
    "alike (st\<lparr>sess := (sess st)\<lparr>remoteID := rid, remoteKey := k, enc := e, dec := d'\<rparr>\<rparr>) st"
    if "\<not> initiator (sess st)"
    using that by (simp add: alike_def)
  ultimately show ?thesis by blast
qed

theorem reinvocation_repeats_witness:
  "alike ((test_st True ''QmB'')\<lparr>sess := (test_session True ''QmB'')
            \<lparr>enc := Some (CipherState 1), dec := Some (CipherState 2),
               remoteKey := Some (PubKey 2)\<rparr>\<rparr>) (test_st True ''QmB'') \<and>
   fst (runHandshake test_env ((test_st True ''QmB'')\<lparr>sess := (test_session True ''QmB'')
            \<lparr>enc := Some (CipherState 1), dec := Some (CipherState 2),
               remoteKey := Some (PubKey 2)\<rparr>\<rparr>)) = None \<and>
   \<not> initiator (sess (test_st False [])) \<and>
   alike ((test_st False [])\<lparr>sess := (sess (test_st False []))
            \<lparr>remoteID := ''QmB'', remoteKey := Some (PubKey 2),
               enc := Some (CipherState 2), dec := Some (CipherState 1)\<rparr>\<rparr>) (test_st False [])"
  using reinvocation_repeats [where env = test_env and st = "test_st True ''QmB''"
          and ?st2.0 = "(test_st True ''QmB'')\<lparr>sess := (test_session True ''QmB'')
            \<lparr>enc := Some (CipherState 1), dec := Some (CipherState 2),
               remoteKey := Some (PubKey 2)\<rparr>\<rparr>"]
        reinvocation_repeats [where st = "test_st False []" and rid = "''QmB''"
          and k = "Some (PubKey 2)" and e = "Some (CipherState 2)"
          and d' = "Some (CipherState 1)"]
  by (simp add: test_run_initiator alike_def test_st_simps)

end
